theory Spec2Isabelle
  imports Complex_Main "HOL-Library.AList"
begin

section \<open>Python values and errors\<close>

text \<open>
  The handler is Python code running inside Houdini. Every exception the modelled code can
  raise is a constructor of \<open>py_error\<close>; a function that can raise returns
  \<open>py_error + 'a\<close> with \<open>Inl\<close> for the exception.
\<close>

datatype py_error =
    TankError string
  | InvalidInput
  | TypeError
  | ValueError
  | KeyError
  | IndexError
  | AttributeError
  | UnboundLocalError
  | OSError

definition bnd :: "py_error + 'a \<Rightarrow> ('a \<Rightarrow> py_error + 'b) \<Rightarrow> py_error + 'b" where
  "bnd m f = (case m of Inl e \<Rightarrow> Inl e | Inr v \<Rightarrow> f v)"

text \<open>Python list indexing \<open>xs[i]\<close>: a negative index counts from the end.\<close>

definition py_index :: "'a list \<Rightarrow> int \<Rightarrow> py_error + 'a" where
  "py_index xs i =
     (if 0 \<le> i \<and> i < int (length xs) then Inr (xs ! nat i)
      else if i < 0 \<and> - int (length xs) \<le> i then Inr (xs ! nat (int (length xs) + i))
      else Inl IndexError)"

text \<open>\<open>str.startswith\<close>, \<open>x in s\<close> on strings, \<open>str.find\<close> and \<open>str.replace\<close>.\<close>

fun startswith :: "string \<Rightarrow> string \<Rightarrow> bool" where
  "startswith s [] = True"
| "startswith [] (p # ps) = False"
| "startswith (c # cs) (p # ps) = (c = p \<and> startswith cs ps)"

fun contains :: "string \<Rightarrow> string \<Rightarrow> bool" where
  "contains [] p = (p = [])"
| "contains (c # cs) p = (startswith (c # cs) p \<or> contains cs p)"

fun find_from :: "string \<Rightarrow> string \<Rightarrow> int \<Rightarrow> int" where
  "find_from [] p i = (if p = [] then i else - 1)"
| "find_from (c # cs) p i = (if startswith (c # cs) p then i else find_from cs p (i + 1))"

definition py_find :: "string \<Rightarrow> string \<Rightarrow> int" where
  "py_find s p = find_from s p 0"

text \<open>The slices \<open>s[:i]\<close> and \<open>s[i:]\<close>, with Python's reading of a negative bound.\<close>

definition slice_to :: "'a list \<Rightarrow> int \<Rightarrow> 'a list" where
  "slice_to s i = (if i < 0 then take (nat (int (length s) + i)) s else take (nat i) s)"

definition slice_from :: "'a list \<Rightarrow> int \<Rightarrow> 'a list" where
  "slice_from s i = (if i < 0 then drop (nat (int (length s) + i)) s else drop (nat i) s)"

section \<open>Houdini nodes and parameters\<close>

text \<open>
  A parameter value is what \<open>hou.Parm.eval\<close> returns: an integer, a float or a string.
  A keyframe carries its frame, its expression (if it is an expression key) and its value.
\<close>

datatype pvalue = IntV int | FloatV real | StrV string

datatype keyframe = Keyframe (frame: real) (expression: "string option") (key_value: pvalue)

datatype parm_template =
    FolderSetParmTemplate
  | StringParmTemplate
  | IntParmTemplate
  | FloatParmTemplate
  | MenuParmTemplate
  | ToggleParmTemplate

text \<open>
  A \<open>hou.Parm\<close>: its name, its template, the raw value it stores (what
  \<open>unexpandedString\<close> returns for a string parameter and \<open>eval\<close> for a parameter
  without keyframes), its keyframes, and the labels and items of its menu.
\<close>

record parm =
  parm_name :: string
  parmTemplate :: parm_template
  raw :: pvalue
  keyframes :: "keyframe list"
  menuLabels :: "string list"
  menuItems :: "string list"

datatype node_category = Sop | Rop

text \<open>An output profile of the application's settings.\<close>

record output_profile =
  profile_name :: string
  settings :: "(string \<times> pvalue) list"
  profile_color :: "(real \<times> real \<times> real) option"
  output_cache_template :: string
  output_backup_template :: string

text \<open>
  A value of a template field. A dictionary of fields is an association list; \<open>not d\<close>
  holds of the empty one.
\<close>

datatype fvalue = FStr string | FInt int | FNone | FProfile output_profile

text \<open>
  The dictionary \<open>_compute_output_path\<close> builds and caches on the node. Its keys are
  fixed by the code, so it is a record; \<open>name\<close> is \<open>FNone\<close> when the work file
  fields have no name.
\<close>

record path_fields =
  f_name :: fvalue
  f_node :: string
  f_version :: int
  f_ext :: string
  f_SEQ :: string
  f_output_profile :: output_profile
  f_hipfile :: string

text \<open>
  A \<open>hou.Node\<close>, with every node named by its path. \<open>inputs\<close> maps an input slot to
  the node feeding it; \<open>outputs\<close> lists the connections leaving the node as (fed node,
  slot of the fed node); \<open>cached_fields\<close> and \<open>pathCache\<close> are the two entries of the
  cached user data the handler uses.
\<close>

record node =
  node_name :: string
  type_name :: string
  category :: node_category
  parent_path :: string
  parms :: "parm list"
  inputs :: "(nat \<times> string) list"
  inputConnectors :: nat
  outputs :: "(string \<times> nat) list"
  userDataDict :: "(string \<times> string) list"
  cached_fields :: "path_fields option"
  pathCache :: "string option"
  color :: "real \<times> real \<times> real"
  position :: "real \<times> real"

definition path :: "node \<Rightarrow> string" where
  "path n = parent_path n @ ''/'' @ node_name n"

text \<open>
  A \<open>hou.NodeConnection\<close>: the node feeding the connection, the node fed by it and the
  input slot of the fed node.
\<close>

record connection =
  inputNode :: string
  outputNode :: string
  inputIndex :: nat

definition inputConnections :: "node \<Rightarrow> connection list" where
  "inputConnections n =
     map (\<lambda>(i, src). \<lparr>inputNode = src, outputNode = path n, inputIndex = i\<rparr>) (inputs n)"

definition outputConnections :: "node \<Rightarrow> connection list" where
  "outputConnections n =
     map (\<lambda>(fed, i). \<lparr>inputNode = path n, outputNode = fed, inputIndex = i\<rparr>) (outputs n)"

definition setInput :: "nat \<Rightarrow> string \<Rightarrow> node \<Rightarrow> node" where
  "setInput i src n = n\<lparr>inputs := AList.update i src (inputs n)\<rparr>"

definition parm :: "node \<Rightarrow> string \<Rightarrow> parm option" where
  "parm n nm = find (\<lambda>p. parm_name p = nm) (parms n)"

fun update_parm :: "string \<Rightarrow> (parm \<Rightarrow> parm) \<Rightarrow> parm list \<Rightarrow> parm list" where
  "update_parm nm f [] = []"
| "update_parm nm f (p # ps) = (if parm_name p = nm then f p # ps else p # update_parm nm f ps)"

text \<open>
  \<open>hou.Parm.set\<close> raises \<open>TypeError\<close> when the value does not suit the parameter.
  Which values a template takes is the host's rule, the parameter \<open>accepts\<close> of the
  model; an accepted value is stored as it is.
\<close>

definition set_parm ::
  "(parm_template \<Rightarrow> pvalue \<Rightarrow> bool) \<Rightarrow> string \<Rightarrow> pvalue \<Rightarrow> node \<Rightarrow> py_error + node" where
  "set_parm accepts nm v n =
     (case parm n nm of
        None \<Rightarrow> Inl AttributeError
      | Some p \<Rightarrow>
          if accepts (parmTemplate p) v
          then Inr (n\<lparr>parms := update_parm nm (\<lambda>q. q\<lparr>raw := v\<rparr>) (parms n)\<rparr>)
          else Inl TypeError)"

text \<open>\<open>hou.Parm.setKeyframe\<close>: the key replaces a key at the same frame.\<close>

definition setKeyframe :: "keyframe \<Rightarrow> parm \<Rightarrow> parm" where
  "setKeyframe k p = p\<lparr>keyframes := filter (\<lambda>j. frame j \<noteq> frame k) (keyframes p) @ [k]\<rparr>"

subsection \<open>\<open>_copy_inputs\<close>\<close>

fun set_inputs :: "connection list \<Rightarrow> node \<Rightarrow> node" where
  "set_inputs [] target = target"
| "set_inputs (c # cs) target = set_inputs cs (setInput (inputIndex c) (inputNode c) target)"

definition copy_inputs :: "node \<Rightarrow> node \<Rightarrow> py_error + node" where
  "copy_inputs source_node target_node =
     (let input_connections = inputConnections source_node;
          num_target_inputs = inputConnectors target_node
      in if length input_connections > num_target_inputs then Inl InvalidInput
         else Inr (set_inputs input_connections target_node))"

subsection \<open>\<open>_copy_parm_values\<close>\<close>

definition value_map :: "string list" where
  "value_map = [''hscript'', ''python'']"

text \<open>
  One turn of the loop over the source parameters. Folder parameters and parameters the
  target does not have are skipped; keyframes are copied key by key; a string parameter
  copies its raw string; any other parameter copies its value, with the fallback for the
  \<open>lpre\<close> and \<open>lpost\<close> parameters when the target refuses it.
\<close>

definition copy_parm ::
  "(parm_template \<Rightarrow> pvalue \<Rightarrow> bool) \<Rightarrow> parm \<Rightarrow> node \<Rightarrow> py_error + node" where
  "copy_parm accepts source_parm target_node =
     (if parmTemplate source_parm = FolderSetParmTemplate then Inr target_node
      else case parm target_node (parm_name source_parm) of
        None \<Rightarrow> Inr target_node
      | Some target_parm \<Rightarrow>
          if keyframes source_parm \<noteq> [] then
            Inr (target_node\<lparr>parms :=
              update_parm (parm_name source_parm)
                (\<lambda>q. fold setKeyframe (keyframes source_parm) q) (parms target_node)\<rparr>)
          else if parmTemplate source_parm = StringParmTemplate then
            set_parm accepts (parm_name source_parm) (raw source_parm) target_node
          else
            (case set_parm accepts (parm_name source_parm) (raw source_parm) target_node of
               Inr t \<Rightarrow> Inr t
             | Inl TypeError \<Rightarrow>
                 if startswith (parm_name source_parm) ''lpre''
                    \<or> startswith (parm_name source_parm) ''lpost''
                 then (case raw source_parm of
                         IntV i \<Rightarrow>
                           bnd (py_index value_map i)
                             (\<lambda>s. set_parm accepts (parm_name source_parm) (StrV s) target_node)
                       | _ \<Rightarrow> Inl TypeError)
                 else Inl TypeError
             | Inl e \<Rightarrow> Inl e))"

fun copy_parms ::
  "(parm_template \<Rightarrow> pvalue \<Rightarrow> bool) \<Rightarrow> parm list \<Rightarrow> node \<Rightarrow> py_error + node" where
  "copy_parms accepts [] target_node = Inr target_node"
| "copy_parms accepts (p # ps) target_node =
     bnd (copy_parm accepts p target_node) (copy_parms accepts ps)"

definition copy_parm_values ::
  "(parm_template \<Rightarrow> pvalue \<Rightarrow> bool) \<Rightarrow> node \<Rightarrow> node \<Rightarrow> string list \<Rightarrow> py_error + node" where
  "copy_parm_values accepts source_node target_node excludes =
     (let source_parms = filter (\<lambda>p. parm_name p \<notin> set excludes) (parms source_node)
      in copy_parms accepts source_parms target_node)"

subsection \<open>\<open>_get_output_menu_label\<close> and \<open>_move_outputs\<close>\<close>

definition eval_int :: "parm \<Rightarrow> py_error + int" where
  "eval_int p = (case raw p of IntV i \<Rightarrow> Inr i | _ \<Rightarrow> Inl TypeError)"


text \<open>
  \<open>_move_outputs\<close> rewires every node fed by the source to the target: the connections
  leave the source and arrive at the target.
\<close>

definition move_outputs :: "node \<Rightarrow> node \<Rightarrow> node \<times> node" where
  "move_outputs source_node target_node =
     (source_node\<lparr>outputs := []\<rparr>,
      target_node\<lparr>outputs := outputs target_node @ outputs source_node\<rparr>)"

subsection \<open>Example nodes\<close>

text \<open>A node with no parameters and no connections, from which the examples are built.\<close>

definition bare_node :: node where
  "bare_node =
     \<lparr>node_name = ''geo1'', type_name = ''geometry'', category = Rop, parent_path = ''/out'',
      parms = [], inputs = [], inputConnectors = 0, outputs = [], userDataDict = [],
      cached_fields = None, pathCache = None, color = (0, 0, 0), position = (0, 0)\<rparr>"

section \<open>The handler\<close>

subsection \<open>The application, the session and the effects of a call\<close>

text \<open>
  A template object of the pipeline toolkit, with the three methods the handler calls.
  They belong to the toolkit, so they are parameters of the model.
\<close>

record template =
  validate :: "string \<Rightarrow> bool"
  get_fields :: "string \<Rightarrow> (string \<times> fvalue) list"
  apply_fields :: "(string \<times> fvalue) list \<Rightarrow> py_error + string"

text \<open>
  A \<open>pyseq.Sequence\<close>: the frame numbers of its files, in ascending order. It is
  false as a condition when it has no file. How a sequence is printed (\<open>format\<close>) is
  left to the library.
\<close>

record pyseq_sequence =
  seq_frames :: "int list"

text \<open>
  What a call reads and does not change: the Houdini session (\<open>hou.isUIAvailable()\<close>,
  \<open>hou.hipFile.path()\<close>, the environment variable \<open>NOZ_HIPFILE\<close>, the host's typing rule
  for \<open>Parm.set\<close>, \<open>os.path.sep\<close>, the frame rate, the nodes under \<open>/obj\<close>), the
  application (its templates, the fields of its context and the output profiles cached by
  \<open>__init__\<close>), the sequences \<open>pyseq\<close> finds on disk and the time ranges of the
  Alembic archives.
\<close>

record app =
  isUIAvailable :: bool
  hipFile_path :: string
  NOZ_HIPFILE :: "string option"
  accepts :: "parm_template \<Rightarrow> pvalue \<Rightarrow> bool"
  os_sep :: char
  work_file_template :: "template option"
  get_template_by_name :: "string \<Rightarrow> template option"
  as_template_fields :: "template \<Rightarrow> (string \<times> fvalue) list"
  output_profiles :: "(string \<times> output_profile) list"
  abstract_paths_from_template :: "template \<Rightarrow> (string \<times> fvalue) list \<Rightarrow> string list"
  get_sequences :: "string \<Rightarrow> pyseq_sequence list"
  seq_format :: "pyseq_sequence \<Rightarrow> string \<Rightarrow> string"
  alembicTimeRange :: "string \<Rightarrow> (real \<times> real) option"
  fps :: real
  obj_children :: "node list"

text \<open>A publish registered with the toolkit.\<close>

record publish =
  pub_path :: string
  pub_name :: string
  published_file_type :: string
  version_number :: int
  dependency_paths :: "string list"

text \<open>
  What a call can change: the node it works on, the nodes depending on it, the number of
  template applications (\<open>apply_fields\<close>) made so far, the messages logged, the paths
  that exist on disk and the publishes registered. An exception leaves the changes made
  before it in place, so a call returns its result or its exception together with the
  new state.
\<close>

record world =
  cur :: node
  dependents :: "node list"
  applied :: nat
  logged :: "(string \<times> string) list"
  disk :: "string list"
  publishes :: "publish list"

type_synonym 'a run = "world \<Rightarrow> (py_error + 'a) \<times> world"

definition ret :: "'a \<Rightarrow> 'a run" where
  "ret v w = (Inr v, w)"

definition raise :: "py_error \<Rightarrow> 'a run" where
  "raise e w = (Inl e, w)"

definition lift :: "py_error + 'a \<Rightarrow> 'a run" where
  "lift r w = (r, w)"

definition seq :: "'a run \<Rightarrow> ('a \<Rightarrow> 'b run) \<Rightarrow> 'b run" where
  "seq m f w = (case m w of (Inl e, w') \<Rightarrow> (Inl e, w') | (Inr v, w') \<Rightarrow> f v w')"

definition log_msg :: "string \<Rightarrow> string \<Rightarrow> unit run" where
  "log_msg level msg w = (Inr (), w\<lparr>logged := logged w @ [(level, msg)]\<rparr>)"

definition the_parm :: "node \<Rightarrow> string \<Rightarrow> py_error + parm" where
  "the_parm n nm = (case parm n nm of None \<Rightarrow> Inl AttributeError | Some p \<Rightarrow> Inr p)"

subsection \<open>Strings: \<open>split\<close>, \<open>capitalize\<close>, \<open>title\<close>, \<open>replace\<close>\<close>

definition is_space :: "char \<Rightarrow> bool" where
  "is_space c = (c \<in> set [CHR '' '', CHR 0x09, CHR 0x0A, CHR 0x0B, CHR 0x0C, CHR 0x0D])"

definition lowercase :: string where
  "lowercase = ''abcdefghijklmnopqrstuvwxyz''"

definition uppercase :: string where
  "uppercase = ''ABCDEFGHIJKLMNOPQRSTUVWXYZ''"

definition is_lower :: "char \<Rightarrow> bool" where
  "is_lower c = (c \<in> set lowercase)"

definition is_upper :: "char \<Rightarrow> bool" where
  "is_upper c = (c \<in> set uppercase)"

definition upper :: "char \<Rightarrow> char" where
  "upper c = (case map_of (zip lowercase uppercase) c of None \<Rightarrow> c | Some u \<Rightarrow> u)"

definition lower :: "char \<Rightarrow> char" where
  "lower c = (case map_of (zip uppercase lowercase) c of None \<Rightarrow> c | Some l \<Rightarrow> l)"

text \<open>\<open>s.split()\<close>: the maximal runs of characters that are not white space.\<close>

fun split_ws :: "string \<Rightarrow> string \<Rightarrow> string list" where
  "split_ws [] word = (if word = [] then [] else [word])"
| "split_ws (c # cs) word =
     (if is_space c then (if word = [] then split_ws cs [] else word # split_ws cs [])
      else split_ws cs (word @ [c]))"

definition py_split :: "string \<Rightarrow> string list" where
  "py_split s = split_ws s []"

definition capitalize :: "string \<Rightarrow> string" where
  "capitalize s = (case s of [] \<Rightarrow> [] | c # cs \<Rightarrow> upper c # map lower cs)"

text \<open>
  \<open>s.title()\<close>: a letter is upper case after a character that is not a letter, and lower
  case after a letter.
\<close>

fun title_from :: "bool \<Rightarrow> string \<Rightarrow> string" where
  "title_from prev [] = []"
| "title_from prev (c # cs) =
     (if is_lower c \<or> is_upper c
      then (if prev then lower c else upper c) # title_from True cs
      else c # title_from False cs)"

definition title :: "string \<Rightarrow> string" where
  "title s = title_from False s"

definition replace_char :: "char \<Rightarrow> char \<Rightarrow> string \<Rightarrow> string" where
  "replace_char a b s = map (\<lambda>c. if c = a then b else c) s"

text \<open>\<open>s.replace(old, new)\<close> for a non-empty \<open>old\<close>; the fuel is the length of \<open>s\<close>.\<close>

fun replace_fuel :: "nat \<Rightarrow> string \<Rightarrow> string \<Rightarrow> string \<Rightarrow> string" where
  "replace_fuel 0 old new s = s"
| "replace_fuel (Suc k) old new [] = []"
| "replace_fuel (Suc k) old new (c # cs) =
     (if startswith (c # cs) old
      then new @ replace_fuel k old new (drop (length old) (c # cs))
      else c # replace_fuel k old new cs)"

definition py_replace :: "string \<Rightarrow> string \<Rightarrow> string \<Rightarrow> string" where
  "py_replace s old new = replace_fuel (length s) old new s"

subsection \<open>\<open>_getNodeName\<close>, \<open>_get_output_profile\<close>, \<open>_get_hipfile_fields\<close>\<close>

definition getNodeName :: "node \<Rightarrow> py_error + string" where
  "getNodeName n =
     (let name = py_split (replace_char CHR ''_'' CHR '' '' (replace_char CHR ''-'' CHR '' '' (node_name n)))
      in case name of
           [] \<Rightarrow> Inl IndexError
         | first # others \<Rightarrow> Inr (first @ concat (map capitalize others)))"

definition get_output_profile :: "app \<Rightarrow> node \<Rightarrow> py_error + output_profile" where
  "get_output_profile a n =
     bnd (the_parm n ''output_profile'') (\<lambda>output_profile_parm.
     bnd (eval_int output_profile_parm) (\<lambda>i.
     bnd (py_index (menuLabels output_profile_parm) i) (\<lambda>output_profile_name.
       case map_of (output_profiles a) output_profile_name of
         None \<Rightarrow> Inl KeyError
       | Some output_profile \<Rightarrow> Inr output_profile)))"

text \<open>
  The path whose fields are read: the path of the hip file when the user interface is
  available, otherwise the environment variable \<open>NOZ_HIPFILE\<close> when it is set and not
  empty, otherwise the empty string (and an error is logged).
\<close>

definition work_file_path :: "app \<Rightarrow> string" where
  "work_file_path a =
     (if isUIAvailable a then hipFile_path a
      else case NOZ_HIPFILE a of
             None \<Rightarrow> ''''
           | Some env_hip \<Rightarrow> if env_hip \<noteq> [] then env_hip else '''')"

definition work_fields :: "app \<Rightarrow> (string \<times> fvalue) list" where
  "work_fields a =
     (case work_file_template a of
        None \<Rightarrow> []
      | Some t \<Rightarrow> if validate t (work_file_path a) then get_fields t (work_file_path a) else [])"

definition get_hipfile_fields :: "app \<Rightarrow> ((string \<times> fvalue) list) run" where
  "get_hipfile_fields a =
     seq (if isUIAvailable a \<or> work_file_path a \<noteq> '''' then ret ()
          else log_msg ''error'' ''Could not find origin hip file!'')
       (\<lambda>_. ret (work_fields a))"

subsection \<open>\<open>_compute_output_path\<close> and \<open>_compute_backup_output_path\<close>\<close>

definition not_a_work_file :: string where
  "not_a_work_file = ''This Houdini file is not a Shotgun Toolkit work file!''"

definition extension_of :: "node \<Rightarrow> py_error + string" where
  "extension_of n =
     bnd (the_parm n ''types'') (\<lambda>type_parm.
     bnd (eval_int type_parm) (\<lambda>i. py_index (menuLabels type_parm) i))"

definition version_of :: "node \<Rightarrow> py_error + int" where
  "version_of n = bnd (the_parm n ''ver'') eval_int"

definition name_field :: "(string \<times> fvalue) list \<Rightarrow> fvalue" where
  "name_field work_file_fields =
     (case map_of work_file_fields ''name'' of None \<Rightarrow> FNone | Some v \<Rightarrow> v)"

text \<open>\<open>d.update(e)\<close> on dictionaries.\<close>

definition dict_update :: "('k \<times> 'v) list \<Rightarrow> ('k \<times> 'v) list \<Rightarrow> ('k \<times> 'v) list" where
  "dict_update d e = fold (\<lambda>(k, v). AList.update k v) e d"

text \<open>The template is applied: one more application is counted.\<close>

definition apply_template :: "template \<Rightarrow> (string \<times> fvalue) list \<Rightarrow> string run" where
  "apply_template t fs w = (apply_fields t fs, w\<lparr>applied := Suc (applied w)\<rparr>)"

definition template_named :: "app \<Rightarrow> string \<Rightarrow> py_error + template" where
  "template_named a nm =
     (case get_template_by_name a nm of None \<Rightarrow> Inl AttributeError | Some t \<Rightarrow> Inr t)"

text \<open>The dictionary literal of \<open>_compute_output_path\<close>, its entries evaluated in order.\<close>

definition path_fields_of ::
  "app \<Rightarrow> node \<Rightarrow> (string \<times> fvalue) list \<Rightarrow> py_error + path_fields" where
  "path_fields_of a n work_file_fields =
     bnd (extension_of n) (\<lambda>extension.
     bnd (getNodeName n) (\<lambda>nm.
     bnd (version_of n) (\<lambda>ver.
     bnd (get_output_profile a n) (\<lambda>output_profile.
       Inr \<lparr>f_name = name_field work_file_fields, f_node = nm, f_version = ver,
            f_ext = extension, f_SEQ = ''FORMAT: $F'', f_output_profile = output_profile,
            f_hipfile = hipFile_path a\<rparr>))))"

definition fields_dict :: "path_fields \<Rightarrow> (string \<times> fvalue) list" where
  "fields_dict pf =
     [(''name'', f_name pf), (''node'', FStr (f_node pf)), (''version'', FInt (f_version pf)),
      (''ext'', FStr (f_ext pf)), (''SEQ'', FStr (f_SEQ pf)),
      (''output_profile'', FProfile (f_output_profile pf)), (''hipfile'', FStr (f_hipfile pf))]"

definition set_cached_fields :: "path_fields \<Rightarrow> unit run" where
  "set_cached_fields pf w = (Inr (), w\<lparr>cur := (cur w)\<lparr>cached_fields := Some pf\<rparr>\<rparr>)"

definition set_pathCache :: "string \<Rightarrow> unit run" where
  "set_pathCache p w = (Inr (), w\<lparr>cur := (cur w)\<lparr>pathCache := Some p\<rparr>\<rparr>)"

text \<open>
  The result is \<open>None\<close> when the cached fields are the computed ones and no path was
  cached with them.
\<close>

definition compute_output_path :: "app \<Rightarrow> (string option) run" where
  "compute_output_path a =
     seq (get_hipfile_fields a) (\<lambda>work_file_fields.
       if work_file_fields = [] then raise (TankError not_a_work_file)
       else (\<lambda>w.
         seq (lift (path_fields_of a (cur w) work_file_fields)) (\<lambda>pf.
           if cached_fields (cur w) \<noteq> Some pf then
             seq (set_cached_fields pf) (\<lambda>_.
             seq (lift (template_named a (output_cache_template (f_output_profile pf))))
               (\<lambda>output_cache_template.
             seq (apply_template output_cache_template
                    (dict_update (fields_dict pf) (as_template_fields a output_cache_template)))
               (\<lambda>p.
             seq (set_pathCache (replace_char (os_sep a) CHR ''/'' p)) (\<lambda>_.
               ret (Some (replace_char (os_sep a) CHR ''/'' p))))))
           else ret (pathCache (cur w))) w))"

definition compute_backup_output_path :: "app \<Rightarrow> string run" where
  "compute_backup_output_path a =
     seq (get_hipfile_fields a) (\<lambda>work_file_fields.
       if work_file_fields = [] then raise (TankError not_a_work_file)
       else (\<lambda>w.
         seq (lift (bnd (extension_of (cur w)) (\<lambda>extension.
                    bnd (getNodeName (cur w)) (\<lambda>nm.
                    bnd (version_of (cur w)) (\<lambda>ver.
                    bnd (get_output_profile a (cur w)) (\<lambda>output_profile.
                    bnd (template_named a (output_backup_template output_profile)) (\<lambda>t.
                      Inr ([(''name'', name_field work_file_fields), (''node'', FStr nm),
                            (''version'', FInt ver), (''ext'', FStr extension)], t))))))))
           (\<lambda>(fs, t).
             seq (apply_template t (dict_update fs (as_template_fields a t))) (\<lambda>p.
               ret (replace_char (os_sep a) CHR ''/'' p))) w))"

subsection \<open>\<open>get_output_path_menu_items\<close>\<close>

text \<open>
  The local variable \<open>path\<close> is bound by the \<open>try\<close> branch only: it is \<open>None\<close> here
  while it is unbound. Reading it unbound raises \<open>UnboundLocalError\<close>, a \<open>NameError\<close>.
  Only \<open>sgtk.TankError\<close> is caught.
\<close>

definition set_cur_parm :: "app \<Rightarrow> string \<Rightarrow> pvalue \<Rightarrow> unit run" where
  "set_cur_parm a nm v w =
     (case set_parm (accepts a) nm v (cur w) of
        Inl e \<Rightarrow> (Inl e, w)
      | Inr n \<Rightarrow> (Inr (), w\<lparr>cur := n\<rparr>))"

definition menu_error_msg :: "string \<Rightarrow> string \<Rightarrow> string" where
  "menu_error_msg nm e = ''Unable to construct the output path menu items: '' @ nm @ '' - '' @ e"

definition get_output_path_menu_items :: "app \<Rightarrow> ((string option) list) run" where
  "get_output_path_menu_items a w =
     (let (r, w1) = compute_output_path a w;
          attempt =
            (case r of
               Inr p \<Rightarrow> (Inr (Some p, [p, p]), w1)
             | Inl (TankError e) \<Rightarrow>
                 (Inr (None, [Some (''ERROR: '' @ menu_error_msg (node_name (cur w1)) e),
                              Some (''ERROR: '' @ menu_error_msg (node_name (cur w1)) e)]),
                  w1\<lparr>logged := logged w1 @ [(''error'', menu_error_msg (node_name (cur w1)) e)]\<rparr>)
             | Inl other \<Rightarrow> (Inl other, w1))
      in seq (\<lambda>_. attempt) (\<lambda>(path_var, menu).
           if isUIAvailable a then
             (case path_var of
                None \<Rightarrow> raise UnboundLocalError
              | Some None \<Rightarrow> raise TypeError
              | Some (Some p) \<Rightarrow> seq (set_cur_parm a ''sopoutput_child'' (StrV p)) (\<lambda>_. ret menu))
           else ret menu) w)"

subsection \<open>An example session\<close>

text \<open>
  A small session on which the properties are evaluated: a work file template that takes
  the paths under \<open>/proj/work/\<close>, a cache template and a backup template that build a
  path from the node, the version and the extension, one output profile, and a node with
  the parameters the handler reads.
\<close>

definition basic_accepts :: "parm_template \<Rightarrow> pvalue \<Rightarrow> bool" where
  "basic_accepts t v =
     (case v of
        StrV _ \<Rightarrow> t = StringParmTemplate
      | IntV _ \<Rightarrow> t \<noteq> StringParmTemplate
      | FloatV _ \<Rightarrow> t = FloatParmTemplate)"

definition demo_work_template :: template where
  "demo_work_template =
     \<lparr>validate = (\<lambda>p. startswith p ''/proj/work/''),
      get_fields = (\<lambda>p. [(''name'', FStr ''scene'')]),
      apply_fields = (\<lambda>fs. Inl (TankError ''no fields''))\<rparr>"

definition demo_version_dir :: "int \<Rightarrow> string" where
  "demo_version_dir v =
     (if v = 1 then ''v001'' else if v = 2 then ''v002'' else if v = 5 then ''v005''
      else if v = 6 then ''v006'' else ''vNNN'')"

definition demo_cache_template :: template where
  "demo_cache_template =
     \<lparr>validate = (\<lambda>p. startswith p ''/proj/cache/''),
      get_fields = (\<lambda>p. if p = ''/proj/cache/cacheMain/v001'' then [(''version'', FInt 1)]
                         else if p = ''/proj/cache/cacheMain/v002'' then [(''version'', FInt 2)]
                         else if p = ''/proj/cache/cacheMain/v005'' then [(''version'', FInt 5)]
                         else []),
      apply_fields = (\<lambda>fs.
        case (map_of fs ''node'', map_of fs ''version'', map_of fs ''ext'') of
          (Some (FStr n), Some (FInt v), Some (FStr e)) \<Rightarrow>
            Inr (''/proj/cache/'' @ n @ ''/'' @ demo_version_dir v @ ''/'' @ n @ ''.$F4.'' @ e)
        | _ \<Rightarrow> Inl (TankError ''missing field''))\<rparr>"

definition demo_backup_template :: template where
  "demo_backup_template =
     \<lparr>validate = (\<lambda>p. startswith p ''/proj/backup/''),
      get_fields = (\<lambda>p. []),
      apply_fields = (\<lambda>fs.
        case (map_of fs ''node'', map_of fs ''version'') of
          (Some (FStr n), Some (FInt v)) \<Rightarrow>
            Inr (''/proj/backup/'' @ n @ ''_'' @ demo_version_dir v @ ''.hip'')
        | _ \<Rightarrow> Inl (TankError ''missing field''))\<rparr>"

definition demo_profile :: output_profile where
  "demo_profile =
     \<lparr>profile_name = ''Default'', settings = [], profile_color = None,
      output_cache_template = ''geo_cache'', output_backup_template = ''geo_backup''\<rparr>"

definition demo_app :: app where
  "demo_app =
     \<lparr>isUIAvailable = True, hipFile_path = ''/proj/work/scene.hip'', NOZ_HIPFILE = None,
      accepts = basic_accepts, os_sep = CHR ''/'',
      work_file_template = Some demo_work_template,
      get_template_by_name =
        (\<lambda>nm. if nm = ''geo_cache'' then Some demo_cache_template
               else if nm = ''geo_backup'' then Some demo_backup_template else None),
      as_template_fields = (\<lambda>t. [(''Shot'', FStr ''sh010'')]),
      output_profiles = [(''Default'', demo_profile)],
      abstract_paths_from_template = (\<lambda>t fs. []),
      get_sequences = (\<lambda>p. []), seq_format = (\<lambda>s d. d), alembicTimeRange = (\<lambda>p. None),
      fps = 24, obj_children = []\<rparr>"

definition menu_parm :: "string \<Rightarrow> int \<Rightarrow> string list \<Rightarrow> parm" where
  "menu_parm nm i labels =
     \<lparr>parm_name = nm, parmTemplate = MenuParmTemplate, raw = IntV i, keyframes = [],
      menuLabels = labels, menuItems = labels\<rparr>"

definition plain_parm :: "string \<Rightarrow> parm_template \<Rightarrow> pvalue \<Rightarrow> parm" where
  "plain_parm nm t v =
     \<lparr>parm_name = nm, parmTemplate = t, raw = v, keyframes = [], menuLabels = [],
      menuItems = []\<rparr>"

definition demo_node :: node where
  "demo_node =
     bare_node\<lparr>node_name := ''cache_main'', type_name := ''sgtk_geometry'',
       parms := [menu_parm ''types'' 0 [''bgeo.sc'', ''abc''],
                 plain_parm ''ver'' IntParmTemplate (IntV 1),
                 menu_parm ''output_profile'' 0 [''Default''],
                 plain_parm ''sopoutput_child'' StringParmTemplate (StrV ''''),
                 plain_parm ''seqlabel'' StringParmTemplate (StrV '''')]\<rparr>"

definition demo_world :: world where
  "demo_world =
     \<lparr>cur = demo_node, dependents = [], applied = 0, logged = [], disk = [], publishes = []\<rparr>"

text \<open>On the render farm: no user interface, a backup hip file, the work file in the environment.\<close>

definition farm_app :: app where
  "farm_app =
     demo_app\<lparr>isUIAvailable := False, hipFile_path := ''/farm/backup/scene.hip'',
       NOZ_HIPFILE := Some ''/proj/work/scene.hip''\<rparr>"

text \<open>The log after \<open>_get_hipfile_fields\<close>.\<close>

definition hip_log :: "app \<Rightarrow> world \<Rightarrow> (string \<times> string) list" where
  "hip_log a w =
     (if isUIAvailable a \<or> work_file_path a \<noteq> '''' then logged w
      else logged w @ [(''error'', ''Could not find origin hip file!'')])"

text \<open>
  The example session after a first path computation, and then with the version
  parameter of the node set to 2.
\<close>

definition demo_world_cached :: world where
  "demo_world_cached = snd (compute_output_path demo_app demo_world)"

definition demo_world_bumped :: world where
  "demo_world_bumped =
     demo_world_cached\<lparr>cur := (cur demo_world_cached)\<lparr>parms :=
       update_parm ''ver'' (\<lambda>q. q\<lparr>raw := IntV 2\<rparr>) (parms (cur demo_world_cached))\<rparr>\<rparr>"

definition demo_fields_v2 :: path_fields where
  "demo_fields_v2 =
     \<lparr>f_name = FStr ''scene'', f_node = ''cacheMain'', f_version = 2, f_ext = ''bgeo.sc'',
      f_SEQ = ''FORMAT: $F'', f_output_profile = demo_profile,
      f_hipfile = ''/proj/work/scene.hip''\<rparr>"

text \<open>
  A session whose hip file is not a work file, with the user interface and without it
  (and without the environment variable).
\<close>

definition lost_app :: app where
  "lost_app = demo_app\<lparr>hipFile_path := ''/tmp/untitled.hip''\<rparr>"

definition headless_app :: app where
  "headless_app = demo_app\<lparr>isUIAvailable := False\<rparr>"

subsection \<open>\<open>auto_version\<close>\<close>

text \<open>\<open>os.path.dirname\<close>, \<open>os.path.exists\<close> and \<open>os.makedirs\<close> on the paths of the model.\<close>

definition rstrip_slash :: "string \<Rightarrow> string" where
  "rstrip_slash s = rev (dropWhile (\<lambda>c. c = CHR ''/'') (rev s))"

definition dirname :: "string \<Rightarrow> string" where
  "dirname p =
     (let head = rev (dropWhile (\<lambda>c. c \<noteq> CHR ''/'') (rev p))
      in if head \<noteq> [] \<and> rstrip_slash head \<noteq> [] then rstrip_slash head else head)"

definition makedirs :: "string \<Rightarrow> unit run" where
  "makedirs d w = (if d = [] then (Inl OSError, w) else (Inr (), w\<lparr>disk := disk w @ [d]\<rparr>))"

text \<open>
  The loop over the existing cache paths: \<open>max_version\<close> becomes the version of a path
  when that version is greater.
\<close>

fun max_version_loop :: "template \<Rightarrow> string list \<Rightarrow> int \<Rightarrow> py_error + int" where
  "max_version_loop t [] max_version = Inr max_version"
| "max_version_loop t (caches # rest) max_version =
     (case map_of (get_fields t caches) ''version'' of
        None \<Rightarrow> Inl KeyError
      | Some (FInt v) \<Rightarrow> max_version_loop t rest (if v > max_version then v else max_version)
      | Some _ \<Rightarrow> Inl TypeError)"

definition version_fields ::
  "app \<Rightarrow> template \<Rightarrow> (string \<times> fvalue) list \<Rightarrow> string \<Rightarrow> string \<Rightarrow> (string \<times> fvalue) list" where
  "version_fields a t work_file_fields nm extension =
     dict_update [(''name'', name_field work_file_fields), (''node'', FStr nm),
                  (''SEQ'', FStr ''FORMAT: $F''), (''ext'', FStr extension)]
       (as_template_fields a t)"

definition highest_version :: "app \<Rightarrow> node \<Rightarrow> (string \<times> fvalue) list \<Rightarrow> py_error + int" where
  "highest_version a n work_file_fields =
     bnd (get_output_profile a n) (\<lambda>output_profile.
     bnd (extension_of n) (\<lambda>extension.
     bnd (getNodeName n) (\<lambda>nm.
     bnd (template_named a (output_cache_template output_profile)) (\<lambda>t.
       max_version_loop t
         (abstract_paths_from_template a t (version_fields a t work_file_fields nm extension))
         0))))"

text \<open>The first half of \<open>auto_version\<close>: the version parameter is set.\<close>

definition assign_next_version :: "app \<Rightarrow> unit run" where
  "assign_next_version a =
     seq (get_hipfile_fields a) (\<lambda>work_file_fields w.
       seq (lift (highest_version a (cur w) work_file_fields)) (\<lambda>max_version.
         set_cur_parm a ''ver'' (IntV (max_version + 1))) w)"

text \<open>The second half: the folder of the output path is created, to reserve the version.\<close>

definition reserve_directory :: "app \<Rightarrow> unit run" where
  "reserve_directory a =
     seq (compute_output_path a) (\<lambda>p.
       case p of
         None \<Rightarrow> ret ()
       | Some pth \<Rightarrow>
           if pth = [] then ret ()
           else (\<lambda>w. if dirname pth \<in> set (disk w) then (Inr (), w) else makedirs (dirname pth) w))"

definition auto_version :: "app \<Rightarrow> unit run" where
  "auto_version a = seq (assign_next_version a) (\<lambda>_. reserve_directory a)"

text \<open>The example session with caches of the versions 1, 2 and 5 on disk.\<close>

definition versions_app :: app where
  "versions_app =
     demo_app\<lparr>abstract_paths_from_template :=
       (\<lambda>t fs. [''/proj/cache/cacheMain/v002'', ''/proj/cache/cacheMain/v005'',
                 ''/proj/cache/cacheMain/v001''])\<rparr>"

subsection \<open>\<open>auto_publish\<close>\<close>

text \<open>\<open>str(n)\<close> for an integer.\<close>

function str_nat :: "nat \<Rightarrow> string" where
  "str_nat n =
     (if n < 10 then [''0123456789'' ! n]
      else str_nat (n div 10) @ [''0123456789'' ! (n mod 10)])"
  by pat_completeness auto
termination
  by (relation "measure id") auto

definition str_int :: "int \<Rightarrow> string" where
  "str_int i = (if i < 0 then CHR ''-'' # str_nat (nat (- i)) else str_nat (nat i))"

text \<open>
  \<open>Parm.eval\<close> of a parameter whose path is taken (a value that is not a string has no
  \<open>replace\<close>), and \<open>Parm.evalAsString\<close>: the token of a menu, the digits of a number.
\<close>

definition eval_path :: "app \<Rightarrow> parm \<Rightarrow> py_error + string" where
  "eval_path a p =
     (case raw p of
        StrV s \<Rightarrow> Inr (replace_char CHR ''/'' (os_sep a) s)
      | _ \<Rightarrow> Inl AttributeError)"

definition evalAsString :: "parm \<Rightarrow> py_error + string" where
  "evalAsString p =
     (case raw p of
        StrV s \<Rightarrow> Inr s
      | IntV i \<Rightarrow> if menuItems p = [] then Inr (str_int i) else py_index (menuItems p) i
      | FloatV _ \<Rightarrow> Inl TypeError)"

text \<open>The file a node under \<open>/obj\<close> refers to, for the four node types that are read.\<close>

definition ref_of :: "app \<Rightarrow> node \<Rightarrow> py_error + string option" where
  "ref_of a n =
     (if type_name n = ''alembicarchive'' then
        bnd (the_parm n ''fileName'') (\<lambda>p. bnd (eval_path a p) (\<lambda>s. Inr (Some s)))
      else if type_name n = ''abc_cam'' then
        bnd (the_parm n ''abcFile'') (\<lambda>p. bnd (eval_path a p) (\<lambda>s. Inr (Some s)))
      else if type_name n = ''sgtk_file'' then
        bnd (the_parm n ''mode'') (\<lambda>m. bnd (evalAsString m) (\<lambda>mode.
          if mode = ''file''
          then bnd (the_parm n ''file'') (\<lambda>p. bnd (eval_path a p) (\<lambda>s. Inr (Some s)))
          else if type_name n = ''arnold_procedural''
          then bnd (the_parm n ''ar_filename'') (\<lambda>p. bnd (eval_path a p) (\<lambda>s. Inr (Some s)))
          else Inr None))
      else if type_name n = ''arnold_procedural'' then
        bnd (the_parm n ''ar_filename'') (\<lambda>p. bnd (eval_path a p) (\<lambda>s. Inr (Some s)))
      else Inr None)"

fun scene_refs :: "app \<Rightarrow> node list \<Rightarrow> py_error + string list" where
  "scene_refs a [] = Inr []"
| "scene_refs a (n # ns) =
     bnd (ref_of a n) (\<lambda>hou_path.
     bnd (scene_refs a ns) (\<lambda>refs.
       Inr (case hou_path of
              None \<Rightarrow> refs
            | Some s \<Rightarrow> if s \<noteq> [] then s # refs else refs)))"

definition register_publish :: "publish \<Rightarrow> unit run" where
  "register_publish p w = (Inr (), w\<lparr>publishes := publishes w @ [p]\<rparr>)"

definition file_type_name :: "string \<Rightarrow> string" where
  "file_type_name cache_type =
     (if cache_type = ''bgeo.sc'' then ''Bgeo Cache''
      else if cache_type = ''abc'' then ''Alembic Cache''
      else if cache_type = ''exr'' then ''Texture''
      else title cache_type @ '' Cache'')"

definition cur_node_name :: "string run" where
  "cur_node_name w = (getNodeName (cur w), w)"

text \<open>The publish of the cache: the last statements of the branch.\<close>

definition publish_cache :: "string \<Rightarrow> string \<Rightarrow> string \<Rightarrow> int \<Rightarrow> unit run" where
  "publish_cache cache_path backup_path cache_type version =
     (if file_type_name cache_type \<noteq> [] then
        seq cur_node_name (\<lambda>nm.
          register_publish
            \<lparr>pub_path = cache_path, pub_name = nm,
             published_file_type = file_type_name cache_type, version_number = version,
             dependency_paths = [backup_path]\<rparr>)
      else log_msg ''error'' ''Could not find the cache_type in auto_publish function!'')"

text \<open>
  \<open>find_publish\<close> gives the publishes registered for the cache path. A path \<open>None\<close>
  (an empty cache entry) is no path the toolkit takes.
\<close>

definition auto_publish :: "app \<Rightarrow> unit run" where
  "auto_publish a =
     seq (compute_output_path a) (\<lambda>cached.
       case cached of
         None \<Rightarrow> raise TypeError
       | Some cache_path \<Rightarrow> (\<lambda>w.
           if filter (\<lambda>p. pub_path p = cache_path) (publishes w) = [] then
             seq (lift (scene_refs a (obj_children a))) (\<lambda>refs.
             seq (\<lambda>w. (version_of (cur w), w)) (\<lambda>version.
             seq (compute_backup_output_path a) (\<lambda>backup_path.
             seq cur_node_name (\<lambda>nm.
             seq (register_publish
                    \<lparr>pub_path = backup_path, pub_name = nm,
                     published_file_type = ''Backup File'', version_number = version,
                     dependency_paths = refs\<rparr>) (\<lambda>_.
             seq (\<lambda>w. (extension_of (cur w), w)) (\<lambda>cache_type.
               publish_cache cache_path backup_path cache_type version)))))) w
           else log_msg ''info'' ''Trying to register cache that already exists!'' w))"

subsection \<open>\<open>check_seq\<close>\<close>

text \<open>
  \<open>Sequence.missing()\<close>: the frames between the first and the last one that have no
  file.
\<close>

definition seq_missing :: "pyseq_sequence \<Rightarrow> int list" where
  "seq_missing s =
     (case seq_frames s of
        [] \<Rightarrow> []
      | f # fs \<Rightarrow> filter (\<lambda>i. i \<notin> set (seq_frames s)) [f..last (seq_frames s)])"

definition green :: "real \<times> real \<times> real" where
  "green = (0, 0.8, 0)"

definition red :: "real \<times> real \<times> real" where
  "red = (0.8, 0, 0)"

text \<open>The label of a sequence that is not empty.\<close>

definition sequence_label :: "app \<Rightarrow> pyseq_sequence \<Rightarrow> string" where
  "sequence_label a s =
     (if seq_missing s \<noteq> []
      then ''['' @ seq_format a s ''%s'' @ ''-'' @ seq_format a s ''%e'' @ ''], missing ''
           @ seq_format a s ''%M''
      else seq_format a s ''%R'')"

text \<open>\<open>path.split('.')[-1]\<close> and \<open>int(x)\<close> of a float.\<close>

definition last_piece :: "string \<Rightarrow> string" where
  "last_piece s = rev (takeWhile (\<lambda>c. c \<noteq> CHR ''.'') (rev s))"

definition py_int :: "real \<Rightarrow> int" where
  "py_int x = (if 0 \<le> x then \<lfloor>x\<rfloor> else \<lceil>x\<rceil>)"

text \<open>The status label and the colour \<open>check_seq\<close> finds for an output path.\<close>

definition seq_status :: "app \<Rightarrow> string list \<Rightarrow> string \<Rightarrow> string \<times> (real \<times> real \<times> real)" where
  "seq_status a on_disk pth =
     (if contains pth ''$F4'' then
        (case get_sequences a (py_replace pth ''$F4'' ''*'') of
           [s] \<Rightarrow>
             if seq_frames s \<noteq> [] then (sequence_label a s, red)
             else (''Invalid Sequence Object!'', green)
         | _ \<Rightarrow> (''No or multiple sequences detected!'', green))
      else if last_piece pth = ''abc'' then
        (if pth \<in> set on_disk then
           ((case alembicTimeRange a pth of
               Some (first, final) \<Rightarrow>
                 ''['' @ str_int (py_int (first * fps a)) @ ''-''
                 @ str_int (py_int (final * fps a)) @ ''] - ABC Archive''
             | None \<Rightarrow> ''Single Abc''), red)
         else (''No Cache!'', green))
      else
        (if pth \<in> set on_disk then (''Single Frame'', red) else (''No Cache!'', green)))"

text \<open>The loop over the dependents: a Shotgun file node reading this node gets the label.\<close>

definition label_dependent :: "app \<Rightarrow> string \<Rightarrow> string \<Rightarrow> node \<Rightarrow> py_error + node" where
  "label_dependent a node_path return_str file_node =
     (if type_name file_node = ''sgtk_file'' then
        bnd (the_parm file_node ''mode'') (\<lambda>m. bnd (evalAsString m) (\<lambda>mode.
          if mode = ''out'' then
            bnd (the_parm file_node ''rop'') (\<lambda>r. bnd (evalAsString r) (\<lambda>rop.
              if rop = node_path then
                bnd (the_parm file_node ''overver'') (\<lambda>ov. bnd (eval_int ov) (\<lambda>overver.
                  if overver = 0
                  then set_parm (accepts a) ''seqlabel'' (StrV return_str) file_node
                  else Inr file_node))
              else Inr file_node))
          else Inr file_node))
      else Inr file_node)"

fun label_dependents ::
  "app \<Rightarrow> string \<Rightarrow> string \<Rightarrow> node list \<Rightarrow> (py_error + unit) \<times> node list" where
  "label_dependents a node_path return_str [] = (Inr (), [])"
| "label_dependents a node_path return_str (file_node # rest) =
     (case label_dependent a node_path return_str file_node of
        Inl e \<Rightarrow> (Inl e, file_node # rest)
      | Inr labelled \<Rightarrow>
          (case label_dependents a node_path return_str rest of
             (r, rest') \<Rightarrow> (r, labelled # rest')))"

definition setColor :: "real \<times> real \<times> real \<Rightarrow> unit run" where
  "setColor c w = (Inr (), w\<lparr>cur := (cur w)\<lparr>color := c\<rparr>\<rparr>)"

definition check_seq :: "app \<Rightarrow> unit run" where
  "check_seq a =
     seq (compute_output_path a) (\<lambda>cached.
       case cached of
         None \<Rightarrow> raise TypeError
       | Some pth \<Rightarrow> (\<lambda>w.
           case seq_status a (disk w) pth of
             (return_str, node_color) \<Rightarrow>
               (case label_dependents a (path (cur w)) return_str (dependents w) of
                  (Inl e, ds) \<Rightarrow> (Inl e, w\<lparr>dependents := ds\<rparr>)
                | (Inr _, ds) \<Rightarrow>
                    seq (setColor node_color) (\<lambda>_.
                      set_cur_parm a ''seqlabel'' (StrV return_str)) (w\<lparr>dependents := ds\<rparr>))))"

text \<open>
  The example session with one sequence on disk, complete (frames 1 to 3) or with the
  frames 3 and 4 missing.
\<close>

definition demo_format :: "pyseq_sequence \<Rightarrow> string \<Rightarrow> string" where
  "demo_format s d =
     (if d = ''%s'' then str_int (hd (seq_frames s))
      else if d = ''%e'' then str_int (last (seq_frames s))
      else if d = ''%M'' then concat (map (\<lambda>i. str_int i @ '' '') (seq_missing s))
      else if d = ''%R'' then str_int (hd (seq_frames s)) @ ''-'' @ str_int (last (seq_frames s))
      else d)"

definition complete_app :: app where
  "complete_app =
     demo_app\<lparr>get_sequences :=
       (\<lambda>p. if p = ''/proj/cache/cacheMain/v001/cacheMain.*.bgeo.sc''
             then [\<lparr>seq_frames = [1, 2, 3]\<rparr>] else []),
       seq_format := demo_format\<rparr>"

definition gappy_app :: app where
  "gappy_app =
     demo_app\<lparr>get_sequences :=
       (\<lambda>p. if p = ''/proj/cache/cacheMain/v001/cacheMain.*.bgeo.sc''
             then [\<lparr>seq_frames = [1, 2, 5]\<rparr>] else []),
       seq_format := demo_format\<rparr>"

section \<open>Output connections in the user data\<close>

subsection \<open>Base64\<close>

text \<open>
  \<open>base64.b64encode\<close> and \<open>base64.b64decode\<close> on byte strings: three bytes give
  four characters of the alphabet, and the last group is padded with \<open>=\<close>.
\<close>

definition b64chars :: string where
  "b64chars = ''ABCDEFGHIJKLMNOPQRSTUVWXYZabcdefghijklmnopqrstuvwxyz0123456789+/''"

definition b64char :: "nat \<Rightarrow> char" where
  "b64char n = b64chars ! n"

definition b64index :: "char \<Rightarrow> nat option" where
  "b64index c = map_of (zip b64chars [0..<64]) c"

definition byte :: "char \<Rightarrow> nat" where
  "byte c = of_char c"

fun b64encode :: "string \<Rightarrow> string" where
  "b64encode [] = []"
| "b64encode [a] =
     [b64char (byte a div 4), b64char ((byte a mod 4) * 16), CHR ''='', CHR ''='']"
| "b64encode [a, b] =
     [b64char (byte a div 4), b64char ((byte a mod 4) * 16 + byte b div 16),
      b64char ((byte b mod 16) * 4), CHR ''='']"
| "b64encode (a # b # c # rest) =
     [b64char (byte a div 4), b64char ((byte a mod 4) * 16 + byte b div 16),
      b64char ((byte b mod 16) * 4 + byte c div 64), b64char (byte c mod 64)]
     @ b64encode rest"

text \<open>A string that is not a sequence of complete groups is refused (\<open>TypeError\<close>).\<close>

fun b64decode :: "string \<Rightarrow> py_error + string" where
  "b64decode [] = Inr []"
| "b64decode [a] = Inl TypeError"
| "b64decode [a, b] = Inl TypeError"
| "b64decode [a, b, c] = Inl TypeError"
| "b64decode (a # b # c # d # rest) =
     (case (b64index a, b64index b) of
        (Some x, Some y) \<Rightarrow>
          if c = CHR ''='' \<and> d = CHR ''='' \<and> rest = [] then Inr [char_of (x * 4 + y div 16)]
          else (case b64index c of
            None \<Rightarrow> Inl TypeError
          | Some z \<Rightarrow>
              if d = CHR ''='' \<and> rest = []
              then Inr [char_of (x * 4 + y div 16), char_of ((y mod 16) * 16 + z div 4)]
              else (case b64index d of
                None \<Rightarrow> Inl TypeError
              | Some u \<Rightarrow>
                  bnd (b64decode rest) (\<lambda>bytes.
                    Inr (char_of (x * 4 + y div 16) # char_of ((y mod 16) * 16 + z div 4)
                         # char_of ((z mod 4) * 64 + u) # bytes))))
      | _ \<Rightarrow> Inl TypeError)"

subsection \<open>The codec and the two utility functions\<close>

text \<open>The dictionary stored for one output connection: \<open>{'node': path, 'input': index}\<close>.\<close>

record output_dict =
  od_node :: string
  od_input :: nat

text \<open>
  \<open>pickle\<close> and \<open>zlib\<close> are libraries of the interpreter: their four functions are
  parameters of the model, and so is the major version of the interpreter
  (\<open>sys.version_info[0]\<close>). The functions work on byte strings, which are the \<open>str\<close>
  of Python 2 and the \<open>bytes\<close> of Python 3.
\<close>

record stdlib =
  py_major :: nat
  dumps :: "output_dict list \<Rightarrow> string"
  loads :: "string \<Rightarrow> py_error + output_dict list"
  compress :: "string \<Rightarrow> string"
  decompress :: "string \<Rightarrow> py_error + string"

definition TK_OUTPUT_CONNECTIONS_KEY :: string where
  "TK_OUTPUT_CONNECTIONS_KEY = ''tk_output_connections''"

definition TK_OUTPUT_CONNECTION_CODEC :: string where
  "TK_OUTPUT_CONNECTION_CODEC = ''sgtk-01''"

definition encode01 :: "stdlib \<Rightarrow> output_dict list \<Rightarrow> string" where
  "encode01 lib data = b64encode (compress lib (dumps lib data))"

definition decode01 :: "stdlib \<Rightarrow> string \<Rightarrow> py_error + output_dict list" where
  "decode01 lib data_str = bnd (b64decode data_str) (\<lambda>z. bnd (decompress lib z) (loads lib))"

record codec =
  encode :: "output_dict list \<Rightarrow> string"
  decode :: "string \<Rightarrow> py_error + output_dict list"

definition TK_OUTPUT_CONNECTION_CODECS :: "stdlib \<Rightarrow> (string \<times> codec) list" where
  "TK_OUTPUT_CONNECTION_CODECS lib = [(''sgtk-01'', \<lparr>encode = encode01 lib, decode = decode01 lib\<rparr>)]"

definition codec_named :: "stdlib \<Rightarrow> string \<Rightarrow> py_error + codec" where
  "codec_named lib nm =
     (case map_of (TK_OUTPUT_CONNECTION_CODECS lib) nm of None \<Rightarrow> Inl KeyError | Some c \<Rightarrow> Inr c)"

definition setUserData :: "string \<Rightarrow> string \<Rightarrow> node \<Rightarrow> node" where
  "setUserData k v n = n\<lparr>userDataDict := AList.update k v (userDataDict n)\<rparr>"

definition userData :: "node \<Rightarrow> string \<Rightarrow> string option" where
  "userData n k = map_of (userDataDict n) k"

text \<open>
  The expression \<open>TK_OUTPUT_CONNECTION_CODEC + ":" + encoder(outputs)\<close>. The encoder
  returns what \<open>base64.b64encode\<close> returns: a \<open>str\<close> in Python 2, where the sum is the
  concatenation, and \<open>bytes\<close> in Python 3, where adding it to a \<open>str\<close> raises
  \<open>TypeError\<close>.
\<close>

definition add_encoded :: "stdlib \<Rightarrow> string \<Rightarrow> string \<Rightarrow> py_error + string" where
  "add_encoded lib prefix encoded =
     (if py_major lib < 3 then Inr (prefix @ encoded) else Inl TypeError)"

definition save_outputs_to_user_data :: "stdlib \<Rightarrow> node \<Rightarrow> node \<Rightarrow> py_error + node" where
  "save_outputs_to_user_data lib source_node target_node =
     (let output_connections = outputConnections source_node
      in if output_connections = [] then Inr target_node
         else
           (let outputs_list =
                  map (\<lambda>c. \<lparr>od_node = outputNode c, od_input = inputIndex c\<rparr>) output_connections
            in bnd (codec_named lib TK_OUTPUT_CONNECTION_CODEC) (\<lambda>c.
               bnd (add_encoded lib (TK_OUTPUT_CONNECTION_CODEC @ '':'') (encode c outputs_list))
                 (\<lambda>data_str.
                 Inr (setUserData TK_OUTPUT_CONNECTIONS_KEY data_str target_node)))))"

text \<open>
  \<open>hou.node(path)\<close> is \<open>None\<close> for a path that names no node of the session, and the call
  of \<open>setInput\<close> on it raises \<open>AttributeError\<close>. A connection that is restored leaves
  the target node.
\<close>

fun reconnect :: "string list \<Rightarrow> output_dict list \<Rightarrow> node \<Rightarrow> py_error + node" where
  "reconnect session_paths [] target_node = Inr target_node"
| "reconnect session_paths (c # cs) target_node =
     (if od_node c \<in> set session_paths
      then reconnect session_paths cs
             (target_node\<lparr>outputs := outputs target_node @ [(od_node c, od_input c)]\<rparr>)
      else Inl AttributeError)"

definition restore_outputs_from_user_data ::
  "stdlib \<Rightarrow> string list \<Rightarrow> node \<Rightarrow> node \<Rightarrow> py_error + node" where
  "restore_outputs_from_user_data lib session_paths source_node target_node =
     (case userData source_node TK_OUTPUT_CONNECTIONS_KEY of
        None \<Rightarrow> Inr target_node
      | Some data_str \<Rightarrow>
          if data_str = [] then Inr target_node
          else
            (let sep_index = py_find data_str '':'';
                 codec_name = slice_to data_str sep_index;
                 payload = slice_from data_str (sep_index + 1)
             in bnd (codec_named lib codec_name) (\<lambda>c.
                bnd (decode c payload) (\<lambda>outputs_list.
                  if outputs_list = [] then Inr target_node
                  else reconnect session_paths outputs_list target_node))))"

subsection \<open>An example library and an example surface node\<close>

text \<open>
  A small serialisation that stands for \<open>pickle\<close> and \<open>zlib\<close> in the examples: a record
  is written as its path, a bar and one byte for the slot; the compressed form is the
  text after a two-byte header. The interpreter of the examples is Python 3.
\<close>

fun example_dumps :: "output_dict list \<Rightarrow> string" where
  "example_dumps [] = []"
| "example_dumps (d # ds) = od_node d @ [CHR ''|'', char_of (od_input d)] @ example_dumps ds"

fun example_parse :: "string \<Rightarrow> string \<Rightarrow> py_error + output_dict list" where
  "example_parse acc [] = (if acc = [] then Inr [] else Inl ValueError)"
| "example_parse acc [c] = Inl ValueError"
| "example_parse acc (c # i # rest) =
     (if c = CHR ''|''
      then bnd (example_parse [] rest) (\<lambda>ds. Inr (\<lparr>od_node = acc, od_input = of_char i\<rparr> # ds))
      else example_parse (acc @ [c]) (i # rest))"

definition example_lib :: stdlib where
  "example_lib =
     \<lparr>py_major = 3,
      dumps = example_dumps,
      loads = example_parse [],
      compress = (\<lambda>s. ''x^'' @ s),
      decompress = (\<lambda>z. if startswith z ''x^'' then Inr (drop 2 z) else Inl ValueError)\<rparr>"

definition surface_node :: node where
  "surface_node =
     bare_node\<lparr>node_name := ''cache_main'', type_name := ''sgtk_geometry'', category := Sop,
       parent_path := ''/obj/geo1'',
       outputs := [(''/obj/geo1/merge1'', 0), (''/obj/geo1/null1'', 1)]\<rparr>"

definition surface_records :: "output_dict list" where
  "surface_records =
     [\<lparr>od_node = ''/obj/geo1/merge1'', od_input = 0\<rparr>,
      \<lparr>od_node = ''/obj/geo1/null1'', od_input = 1\<rparr>]"

section \<open>Converting between Toolkit nodes and regular nodes\<close>

definition HOU_ROP_GEOMETRY_TYPE :: string where
  "HOU_ROP_GEOMETRY_TYPE = ''geometry''"

definition HOU_SOP_GEOMETRY_TYPE :: string where
  "HOU_SOP_GEOMETRY_TYPE = ''rop_geometry''"

definition NODE_OUTPUT_PATH_PARM :: string where
  "NODE_OUTPUT_PATH_PARM = ''sopoutput''"

definition TK_GEOMETRY_NODE_TYPE :: string where
  "TK_GEOMETRY_NODE_TYPE = ''sgtk_geometry''"

definition TK_OUTPUT_PROFILE_PARM :: string where
  "TK_OUTPUT_PROFILE_PARM = ''output_profile''"

definition TK_OUTPUT_PROFILE_NAME_KEY :: string where
  "TK_OUTPUT_PROFILE_NAME_KEY = ''tk_output_profile_name''"

text \<open>
  The two class methods work on the whole Houdini session: its nodes, and the messages
  logged by the application. What Houdini itself does is a parameter of the model: the
  node \<open>createNode\<close> makes for a parent path and a type name, the typing rule of
  \<open>Parm.set\<close>, the node types installed in a category, and the \<open>pickle\<close> and \<open>zlib\<close>
  libraries. A class method returns the session it leaves, or the exception it raises.
\<close>

record session =
  session_nodes :: "node list"
  messages :: "(string \<times> string) list"

record houdini =
  createNode :: "string \<Rightarrow> string \<Rightarrow> node"
  set_ok :: "parm_template \<Rightarrow> pvalue \<Rightarrow> bool"
  nodeTypes :: "node_category \<Rightarrow> string list"
  libs :: stdlib

definition instances :: "node_category \<Rightarrow> string \<Rightarrow> session \<Rightarrow> node list" where
  "instances cat ty s = filter (\<lambda>n. category n = cat \<and> type_name n = ty) (session_nodes s)"

definition quoted :: "string \<Rightarrow> string" where
  "quoted s = [CHR 0x27] @ s @ [CHR 0x27]"

text \<open>\<open>list.index(x)\<close>: the first position of \<open>x\<close>, or \<open>ValueError\<close>.\<close>

fun list_index :: "'a list \<Rightarrow> 'a \<Rightarrow> py_error + nat" where
  "list_index [] x = Inl ValueError"
| "list_index (y # ys) x = (if y = x then Inr 0 else bnd (list_index ys x) (\<lambda>i. Inr (Suc i)))"

subsection \<open>\<open>convert_back_to_tk_geometry_nodes\<close>\<close>

text \<open>
  The \<open>try\<close> block that selects the stored profile on the new node. A \<open>ValueError\<close> is
  caught and reported as a warning; the function returns the node and the warnings.
\<close>

definition select_output_profile ::
  "houdini \<Rightarrow> string \<Rightarrow> node \<Rightarrow> py_error + node \<times> (string \<times> string) list" where
  "select_output_profile h tk_output_profile_name tk_geometry_node =
     (case bnd (the_parm tk_geometry_node TK_OUTPUT_PROFILE_PARM) (\<lambda>output_profile_parm.
           bnd (list_index (menuLabels output_profile_parm) tk_output_profile_name)
             (\<lambda>output_profile_index.
                set_parm (set_ok h) TK_OUTPUT_PROFILE_PARM (IntV (int output_profile_index))
                  tk_geometry_node)) of
        Inr selected \<Rightarrow> Inr (selected, [])
      | Inl ValueError \<Rightarrow>
          Inr (tk_geometry_node,
               [(''warning'', ''No output profile found named: '' @ tk_output_profile_name)])
      | Inl e \<Rightarrow> Inl e)"

text \<open>
  The statements after the \<open>try\<close> block, up to the new name and position of the new
  node. \<open>session_paths\<close> are the paths \<open>hou.node\<close> resolves. Every node carries its own
  wiring, so moving or restoring the outputs changes the new node only.
\<close>

definition copy_to_tk_node :: "houdini \<Rightarrow> string list \<Rightarrow> node \<Rightarrow> node \<Rightarrow> py_error + node" where
  "copy_to_tk_node h session_paths geometry_node tk_geometry_node =
     bnd (copy_parm_values (set_ok h) geometry_node tk_geometry_node [NODE_OUTPUT_PATH_PARM])
       (\<lambda>copied.
     bnd (copy_inputs geometry_node copied) (\<lambda>wired.
     bnd (if type_name geometry_node = HOU_SOP_GEOMETRY_TYPE
          then restore_outputs_from_user_data (libs h) session_paths geometry_node wired
          else if type_name geometry_node = HOU_ROP_GEOMETRY_TYPE
          then Inr (snd (move_outputs geometry_node wired))
          else Inr wired) (\<lambda>connected.
       Inr (connected\<lparr>color := color geometry_node, node_name := node_name geometry_node,
              position := position geometry_node\<rparr>))))"

text \<open>
  The loop over the geometry nodes. The original node is destroyed and the new one takes
  its name, hence its path.
\<close>

fun convert_back_nodes :: "houdini \<Rightarrow> node list \<Rightarrow> session \<Rightarrow> py_error + session" where
  "convert_back_nodes h [] s = Inr s"
| "convert_back_nodes h (geometry_node # rest) s =
     (let tk_output_profile_name =
            (case userData geometry_node TK_OUTPUT_PROFILE_NAME_KEY of
               None \<Rightarrow> [] | Some stored \<Rightarrow> stored)
      in if tk_output_profile_name = [] then
           convert_back_nodes h rest
             (s\<lparr>messages := messages s @
                [(''warning'', ''Geometry node '' @ quoted (node_name geometry_node) @
                    '' does not have an output profile name. Can'' @ [CHR 0x27] @
                    ''t convert to Tk Geometry node. Continuing.'')]\<rparr>)
         else
           (let tk_geometry_node =
                  createNode h (parent_path geometry_node) TK_GEOMETRY_NODE_TYPE;
                session_paths = map path (session_nodes s) @ [path tk_geometry_node]
            in bnd (select_output_profile h tk_output_profile_name tk_geometry_node)
                 (\<lambda>(selected, warnings).
               bnd (copy_to_tk_node h session_paths geometry_node selected) (\<lambda>converted.
                 convert_back_nodes h rest
                   (s\<lparr>session_nodes :=
                        filter (\<lambda>n. path n \<noteq> path geometry_node) (session_nodes s) @ [converted],
                      messages := messages s @ warnings @
                        [(''debug'', ''Converted: Geometry node '' @
                            quoted (node_name geometry_node) @ '' to TK Geometry node.'')]\<rparr>)))))"

definition convert_back_to_tk_geometry_nodes :: "houdini \<Rightarrow> session \<Rightarrow> py_error + session" where
  "convert_back_to_tk_geometry_nodes h s =
     (let geometry_nodes =
            instances Sop HOU_SOP_GEOMETRY_TYPE s @ instances Rop HOU_ROP_GEOMETRY_TYPE s
      in if geometry_nodes = [] then
           Inr (s\<lparr>messages := messages s @
                  [(''debug'', ''No Geometry Nodes found for conversion.'')]\<rparr>)
         else convert_back_nodes h geometry_nodes s)"

subsection \<open>\<open>convert_to_regular_geometry_nodes\<close>\<close>




subsection \<open>An example session with one Toolkit node\<close>

text \<open>
  The node types of the example: both have a folder set, a frame range with its start
  and end frames and the path of the geometry; the Toolkit type has a menu for its
  output path and its profiles. A new regular node has the expressions \<open>$FSTART\<close> and
  \<open>$FEND\<close> on its frames. A new Toolkit node is as \<open>setup_node\<close> leaves it, called
  when the node is created: the frame range is \<open>normal\<close> and the frames have the
  expressions \<open>$NOZSTART\<close> and \<open>$NOZEND\<close>. All these keys are at frame 1, the
  current frame of the example.
\<close>

definition keyed_parm :: "string \<Rightarrow> string \<Rightarrow> real \<Rightarrow> parm" where
  "keyed_parm nm expr v =
     (plain_parm nm FloatParmTemplate (FloatV v))
       \<lparr>keyframes := [Keyframe 1 (Some expr) (FloatV v)]\<rparr>"

definition regular_parms :: "parm list" where
  "regular_parms =
     [plain_parm ''folder0'' FolderSetParmTemplate (IntV 0),
      plain_parm ''sopoutput'' StringParmTemplate (StrV ''$HIP/geo/$OS.bgeo.sc''),
      menu_parm ''trange'' 0 [''off'', ''normal'', ''on''],
      keyed_parm ''f1'' ''$FSTART'' 1,
      keyed_parm ''f2'' ''$FEND'' 240,
      plain_parm ''soppath'' StringParmTemplate (StrV [])]"

definition tk_parms :: "parm list" where
  "tk_parms =
     [plain_parm ''folder0'' FolderSetParmTemplate (IntV 0),
      (menu_parm ''sopoutput'' 0 [''/proj/cache/cacheMain/v001/cacheMain.$F4.bgeo.sc''])
        \<lparr>menuItems := [''sgtk'']\<rparr>,
      menu_parm ''output_profile'' 0 [''Default'', ''Alembic''],
      menu_parm ''trange'' 1 [''off'', ''normal'', ''on''],
      keyed_parm ''f1'' ''$NOZSTART'' 1,
      keyed_parm ''f2'' ''$NOZEND'' 240,
      plain_parm ''soppath'' StringParmTemplate (StrV [])]"

definition example_createNode :: "string \<Rightarrow> string \<Rightarrow> node" where
  "example_createNode parent ty =
     bare_node\<lparr>node_name := ty @ ''1'', type_name := ty,
       category := (if parent = ''/out'' then Rop else Sop), parent_path := parent,
       parms := (if ty = ''sgtk_geometry'' then tk_parms else regular_parms),
       inputConnectors := 1\<rparr>"

definition example_houdini :: houdini where
  "example_houdini =
     \<lparr>createNode = example_createNode, set_ok = basic_accepts,
      nodeTypes = (\<lambda>c. [''geometry'', ''rop_geometry'', ''sgtk_geometry'']),
      libs = example_lib\<rparr>"



text \<open>A regular node whose stored profile name is no label of the profile menu.\<close>

definition stale_node :: node where
  "stale_node =
     (example_createNode ''/out'' ''geometry'')
       \<lparr>node_name := ''cache_main'',
        userDataDict := [(''tk_output_profile_name'', ''Old Profile'')],
        color := (1, 0, 0), position := (2, 3)\<rparr>"

definition stale_session :: session where
  "stale_session = \<lparr>session_nodes = [stale_node], messages = []\<rparr>"

section \<open>Properties\<close>

subsection \<open>Copying inputs\<close>

lemma map_of_set_inputs:
  "map_of (inputs (set_inputs cs t)) i =
     (case map_of (rev (map (\<lambda>c. (inputIndex c, inputNode c)) cs)) i of
        Some v \<Rightarrow> Some v | None \<Rightarrow> map_of (inputs t) i)"
  by (induction cs arbitrary: t) (auto simp: setInput_def update_conv' map_add_def split: option.splits)

lemma set_inputs_inputs_only:
  "set_inputs cs t =
     t\<lparr>inputs := fold (\<lambda>c. AList.update (inputIndex c) (inputNode c)) cs (inputs t)\<rparr>"
  by (induction cs arbitrary: t) (simp_all add: setInput_def)

text \<open>
  C7. When the source has more input connections than the target has input connectors,
  \<open>_copy_inputs\<close> raises \<open>hou.InvalidInput\<close> and no input of the target is set (no
  node is returned). Otherwise it returns the target with only its inputs changed, and
  every input connection of the source is wired to the same slot of the target. The input
  slots of a node's connections are distinct.
\<close>

theorem copy_inputs_guard_then_copy:
  "(length (inputConnections s) > inputConnectors t \<longrightarrow> copy_inputs s t = Inl InvalidInput) \<and>
   (length (inputConnections s) \<le> inputConnectors t \<longrightarrow> distinct (map fst (inputs s)) \<longrightarrow>
      (\<exists>t'. copy_inputs s t = Inr t' \<and> t' = t\<lparr>inputs := inputs t'\<rparr> \<and>
         (\<forall>c \<in> set (inputConnections s).
            map_of (inputs t') (inputIndex c) = Some (inputNode c))))"
proof (intro conjI impI)
  assume "length (inputConnections s) > inputConnectors t"
  then show "copy_inputs s t = Inl InvalidInput" by (simp add: copy_inputs_def)
next
  assume le: "length (inputConnections s) \<le> inputConnectors t"
    and d: "distinct (map fst (inputs s))"
  let ?t = "set_inputs (inputConnections s) t"
  have pairs: "map (\<lambda>c. (inputIndex c, inputNode c)) (inputConnections s) = inputs s"
    by (simp add: inputConnections_def case_prod_unfold o_def)
  have "\<forall>c \<in> set (inputConnections s). map_of (inputs ?t) (inputIndex c) = Some (inputNode c)"
  proof
    fix c assume "c \<in> set (inputConnections s)"
    then have "(inputIndex c, inputNode c) \<in> set (inputs s)"
      by (auto simp: inputConnections_def)
    then have "map_of (rev (inputs s)) (inputIndex c) = Some (inputNode c)"
      using d by (simp add: rev_map [symmetric])
    then show "map_of (inputs ?t) (inputIndex c) = Some (inputNode c)"
      by (simp add: map_of_set_inputs pairs)
  qed
  moreover have "copy_inputs s t = Inr ?t" using le by (simp add: copy_inputs_def)
  moreover have "?t = t\<lparr>inputs := inputs ?t\<rparr>" by (simp add: set_inputs_inputs_only)
  ultimately show "\<exists>t'. copy_inputs s t = Inr t' \<and> t' = t\<lparr>inputs := inputs t'\<rparr> \<and>
         (\<forall>c \<in> set (inputConnections s).
            map_of (inputs t') (inputIndex c) = Some (inputNode c))"
    by blast
qed

theorem copy_inputs_guard_then_copy_witness:
  "length (inputConnections (bare_node\<lparr>inputs := [(0, ''/out/a''), (2, ''/out/b'')]\<rparr>)) \<le>
     inputConnectors (bare_node\<lparr>inputConnectors := 3\<rparr>) \<and>
   distinct (map fst (inputs (bare_node\<lparr>inputs := [(0, ''/out/a''), (2, ''/out/b'')]\<rparr>))) \<and>
   (\<exists>t'. copy_inputs (bare_node\<lparr>inputs := [(0, ''/out/a''), (2, ''/out/b'')]\<rparr>)
            (bare_node\<lparr>inputConnectors := 3\<rparr>) = Inr t' \<and>
         map_of (inputs t') 0 = Some ''/out/a'' \<and> map_of (inputs t') 2 = Some ''/out/b'') \<and>
   copy_inputs (bare_node\<lparr>inputs := [(0, ''/out/a''), (2, ''/out/b'')]\<rparr>)
     (bare_node\<lparr>inputConnectors := 1\<rparr>) = Inl InvalidInput"
  using copy_inputs_guard_then_copy
      [where s = "bare_node\<lparr>inputs := [(0, ''/out/a''), (2, ''/out/b'')]\<rparr>"
         and t = "bare_node\<lparr>inputConnectors := 3\<rparr>"]
    copy_inputs_guard_then_copy
      [where s = "bare_node\<lparr>inputs := [(0, ''/out/a''), (2, ''/out/b'')]\<rparr>"
         and t = "bare_node\<lparr>inputConnectors := 1\<rparr>"]
  by (auto simp: inputConnections_def bare_node_def)

subsection \<open>Path computation and its cache\<close>

lemma get_hipfile_fields_eq:
  "get_hipfile_fields a w = (Inr (work_fields a), w\<lparr>logged := hip_log a w\<rparr>)"
  by (simp add: get_hipfile_fields_def seq_def ret_def log_msg_def hip_log_def)

lemma compute_output_path_unfold:
  "compute_output_path a w =
     (let w0 = w\<lparr>logged := hip_log a w\<rparr> in
      if work_fields a = [] then (Inl (TankError not_a_work_file), w0)
      else case path_fields_of a (cur w) (work_fields a) of
        Inl e \<Rightarrow> (Inl e, w0)
      | Inr pf \<Rightarrow>
          if cached_fields (cur w) = Some pf then (Inr (pathCache (cur w)), w0)
          else case template_named a (output_cache_template (f_output_profile pf)) of
            Inl e \<Rightarrow> (Inl e, w0\<lparr>cur := (cur w)\<lparr>cached_fields := Some pf\<rparr>\<rparr>)
          | Inr t \<Rightarrow>
              (case apply_fields t (dict_update (fields_dict pf) (as_template_fields a t)) of
                 Inl e \<Rightarrow> (Inl e, w0\<lparr>cur := (cur w)\<lparr>cached_fields := Some pf\<rparr>,
                                      applied := Suc (applied w)\<rparr>)
               | Inr p \<Rightarrow>
                   (Inr (Some (replace_char (os_sep a) CHR ''/'' p)),
                    w0\<lparr>cur := (cur w)\<lparr>cached_fields := Some pf,
                                      pathCache := Some (replace_char (os_sep a) CHR ''/'' p)\<rparr>,
                       applied := Suc (applied w)\<rparr>)))"
  by (simp add: compute_output_path_def get_hipfile_fields_eq seq_def raise_def lift_def
      ret_def set_cached_fields_def set_pathCache_def apply_template_def Let_def
      split: sum.splits)

lemma path_fields_of_cong:
  "parms n' = parms n \<Longrightarrow> node_name n' = node_name n \<Longrightarrow>
   path_fields_of a n' hf = path_fields_of a n hf"
  by (simp add: path_fields_of_def extension_of_def getNodeName_def version_of_def
      get_output_profile_def the_parm_def parm_def)

lemma compute_output_path_hit:
  assumes "work_fields a \<noteq> []" "path_fields_of a (cur w) (work_fields a) = Inr pf"
    "cached_fields (cur w) = Some pf"
  shows "compute_output_path a w = (Inr (pathCache (cur w)), w\<lparr>logged := hip_log a w\<rparr>)"
  using assms by (simp add: compute_output_path_unfold)

lemma compute_output_path_again:
  assumes "compute_output_path a w = (Inr r, w1)"
  shows "work_fields a \<noteq> [] \<and> (\<exists>pf. path_fields_of a (cur w1) (work_fields a) = Inr pf \<and>
           cached_fields (cur w1) = Some pf) \<and> pathCache (cur w1) = r"
proof -
  have nz: "work_fields a \<noteq> []"
  proof
    assume "work_fields a = []"
    then have "fst (compute_output_path a w) = Inl (TankError not_a_work_file)"
      by (simp add: compute_output_path_unfold)
    with assms show False by simp
  qed
  obtain pf where pf: "path_fields_of a (cur w) (work_fields a) = Inr pf"
  proof (cases "path_fields_of a (cur w) (work_fields a)")
    case (Inl e)
    with nz have "fst (compute_output_path a w) = Inl e"
      by (simp add: compute_output_path_unfold)
    with assms show ?thesis by simp
  next
    case (Inr pf)
    then show ?thesis by (rule that)
  qed
  show ?thesis
  proof (cases "cached_fields (cur w) = Some pf")
    case True
    with nz pf have e: "compute_output_path a w = (Inr (pathCache (cur w)), w\<lparr>logged := hip_log a w\<rparr>)"
      by (simp add: compute_output_path_unfold)
    have "(Inr r, w1) =
        (Inr (pathCache (cur w)) :: py_error + string option, w\<lparr>logged := hip_log a w\<rparr>)"
      by (rule trans [OF assms [symmetric] e])
    then have "r = pathCache (cur w)" "w1 = w\<lparr>logged := hip_log a w\<rparr>" by simp_all
    with nz pf True show ?thesis by simp
  next
    case False
    obtain t where t: "template_named a (output_cache_template (f_output_profile pf)) = Inr t"
    proof (cases "template_named a (output_cache_template (f_output_profile pf))")
      case (Inl e)
      with nz pf False have "fst (compute_output_path a w) = Inl e"
        by (simp add: compute_output_path_unfold)
      with assms show ?thesis by simp
    next
      case (Inr t)
      then show ?thesis by (rule that)
    qed
    obtain p where p: "apply_fields t (dict_update (fields_dict pf) (as_template_fields a t)) = Inr p"
    proof (cases "apply_fields t (dict_update (fields_dict pf) (as_template_fields a t))")
      case (Inl e)
      with nz pf False t have "fst (compute_output_path a w) = Inl e"
        by (simp add: compute_output_path_unfold)
      with assms show ?thesis by simp
    next
      case (Inr p)
      then show ?thesis by (rule that)
    qed
    let ?p = "replace_char (os_sep a) CHR ''/'' p"
    let ?n = "(cur w)\<lparr>cached_fields := Some pf, pathCache := Some ?p\<rparr>"
    from nz pf False t p have e: "compute_output_path a w =
        (Inr (Some ?p), w\<lparr>logged := hip_log a w, cur := ?n, applied := Suc (applied w)\<rparr>)"
      by (simp add: compute_output_path_unfold)
    have "(Inr r, w1) =
        (Inr (Some ?p) :: py_error + string option,
         w\<lparr>logged := hip_log a w, cur := ?n, applied := Suc (applied w)\<rparr>)"
      by (rule trans [OF assms [symmetric] e])
    then have r: "r = Some ?p"
      and w1: "w1 = w\<lparr>logged := hip_log a w, cur := ?n, applied := Suc (applied w)\<rparr>"
      by simp_all
    have c: "cur w1 = ?n" by (simp add: w1)
    have "path_fields_of a ?n (work_fields a) = path_fields_of a (cur w) (work_fields a)"
      by (rule path_fields_of_cong) simp_all
    with pf have "path_fields_of a ?n (work_fields a) = Inr pf" by simp
    with nz r show ?thesis by (simp add: c)
  qed
qed

text \<open>
  C3. When a call of \<open>_compute_output_path\<close> has returned, a second call in the state it
  left (the fields dictionary is then the one that was cached) returns the same value,
  which is the \<open>pathCache\<close> entry of the node, changes nothing on the node and applies no
  template. When the fields dictionary computed differs from the cached one (a field
  changed, or nothing was cached), the new dictionary is cached and the template is
  applied once: the result is the recomputed path.
\<close>

theorem compute_output_path_memoized:
  "(compute_output_path a w = (Inr r, w') \<longrightarrow>
      fst (compute_output_path a w') = Inr r \<and> r = pathCache (cur w') \<and>
      cur (snd (compute_output_path a w')) = cur w' \<and>
      applied (snd (compute_output_path a w')) = applied w') \<and>
   (work_fields a \<noteq> [] \<and> path_fields_of a (cur w) (work_fields a) = Inr pf \<and>
    cached_fields (cur w) \<noteq> Some pf \<and>
    template_named a (output_cache_template (f_output_profile pf)) = Inr t \<longrightarrow>
      applied (snd (compute_output_path a w)) = Suc (applied w) \<and>
      cached_fields (cur (snd (compute_output_path a w))) = Some pf \<and>
      fst (compute_output_path a w) =
        (case apply_fields t (dict_update (fields_dict pf) (as_template_fields a t)) of
           Inl e \<Rightarrow> Inl e
         | Inr p \<Rightarrow> Inr (Some (replace_char (os_sep a) CHR ''/'' p))))"
proof (intro conjI impI)
  assume first: "compute_output_path a w = (Inr r, w')"
  from compute_output_path_again [OF first] obtain pf' where
    h: "work_fields a \<noteq> []" "path_fields_of a (cur w') (work_fields a) = Inr pf'"
       "cached_fields (cur w') = Some pf'" "pathCache (cur w') = r"
    by blast
  have second: "compute_output_path a w' = (Inr r, w'\<lparr>logged := hip_log a w'\<rparr>)"
    using compute_output_path_hit [OF h(1) h(2) h(3)] h(4) by simp
  show "fst (compute_output_path a w') = Inr r" by (simp add: second)
  show "r = pathCache (cur w')" by (simp add: h(4))
  show "cur (snd (compute_output_path a w')) = cur w'" by (simp add: second)
  show "applied (snd (compute_output_path a w')) = applied w'" by (simp add: second)
next
  assume m: "work_fields a \<noteq> [] \<and> path_fields_of a (cur w) (work_fields a) = Inr pf \<and>
    cached_fields (cur w) \<noteq> Some pf \<and>
    template_named a (output_cache_template (f_output_profile pf)) = Inr t"
  then show "applied (snd (compute_output_path a w)) = Suc (applied w)"
    by (simp add: compute_output_path_unfold Let_def split: sum.splits)
  from m show "cached_fields (cur (snd (compute_output_path a w))) = Some pf"
    by (simp add: compute_output_path_unfold Let_def split: sum.splits)
  from m show "fst (compute_output_path a w) =
        (case apply_fields t (dict_update (fields_dict pf) (as_template_fields a t)) of
           Inl e \<Rightarrow> Inl e
         | Inr p \<Rightarrow> Inr (Some (replace_char (os_sep a) CHR ''/'' p)))"
    by (simp add: compute_output_path_unfold Let_def split: sum.splits)
qed

theorem compute_output_path_memoized_witness:
  "compute_output_path demo_app demo_world =
     (Inr (Some ''/proj/cache/cacheMain/v001/cacheMain.$F4.bgeo.sc''), demo_world_cached) \<and>
   fst (compute_output_path demo_app demo_world_cached) =
     Inr (Some ''/proj/cache/cacheMain/v001/cacheMain.$F4.bgeo.sc'') \<and>
   applied demo_world_cached = 1 \<and>
   applied (snd (compute_output_path demo_app demo_world_cached)) = 1 \<and>
   cached_fields (cur demo_world_bumped) \<noteq> Some demo_fields_v2 \<and>
   applied (snd (compute_output_path demo_app demo_world_bumped)) = 2 \<and>
   fst (compute_output_path demo_app demo_world_bumped) =
     Inr (Some ''/proj/cache/cacheMain/v002/cacheMain.$F4.bgeo.sc'')"
proof -
  have first: "compute_output_path demo_app demo_world =
     (Inr (Some ''/proj/cache/cacheMain/v001/cacheMain.$F4.bgeo.sc''), demo_world_cached)"
  proof -
    have "fst (compute_output_path demo_app demo_world) =
      Inr (Some ''/proj/cache/cacheMain/v001/cacheMain.$F4.bgeo.sc'')" by code_simp
    then show ?thesis by (simp add: demo_world_cached_def prod_eq_iff)
  qed
  have one: "applied demo_world_cached = 1" by code_simp
  have nz: "work_fields demo_app \<noteq> []" by code_simp
  have pf: "path_fields_of demo_app (cur demo_world_bumped) (work_fields demo_app) =
      Inr demo_fields_v2" by code_simp
  have changed: "cached_fields (cur demo_world_bumped) \<noteq> Some demo_fields_v2" by code_simp
  have tpl: "template_named demo_app (output_cache_template (f_output_profile demo_fields_v2)) =
      Inr demo_cache_template"
    by (simp add: template_named_def demo_app_def demo_fields_v2_def demo_profile_def)
  have two: "applied demo_world_bumped = 1" by code_simp
  have applied_path: "apply_fields demo_cache_template
      (dict_update (fields_dict demo_fields_v2) (as_template_fields demo_app demo_cache_template)) =
      Inr ''/proj/cache/cacheMain/v002/cacheMain.$F4.bgeo.sc''" by code_simp
  have sep: "os_sep demo_app = CHR ''/''" by (simp add: demo_app_def)
  note m = compute_output_path_memoized
    [where a = demo_app and w = demo_world and w' = demo_world_cached
       and r = "Some ''/proj/cache/cacheMain/v001/cacheMain.$F4.bgeo.sc''"]
  note n = compute_output_path_memoized
    [where a = demo_app and w = demo_world_bumped and pf = demo_fields_v2
       and t = demo_cache_template]
  from m first have again: "fst (compute_output_path demo_app demo_world_cached) =
      Inr (Some ''/proj/cache/cacheMain/v001/cacheMain.$F4.bgeo.sc'')"
    and same: "applied (snd (compute_output_path demo_app demo_world_cached)) =
      applied demo_world_cached" by blast+
  from n nz pf changed tpl have
    "applied (snd (compute_output_path demo_app demo_world_bumped)) = Suc (applied demo_world_bumped)"
    and "fst (compute_output_path demo_app demo_world_bumped) =
        (case apply_fields demo_cache_template
           (dict_update (fields_dict demo_fields_v2) (as_template_fields demo_app demo_cache_template)) of
           Inl e \<Rightarrow> Inl e
         | Inr p \<Rightarrow> Inr (Some (replace_char (os_sep demo_app) CHR ''/'' p)))" by blast+
  then have "applied (snd (compute_output_path demo_app demo_world_bumped)) = 2"
    and "fst (compute_output_path demo_app demo_world_bumped) =
      Inr (Some ''/proj/cache/cacheMain/v002/cacheMain.$F4.bgeo.sc'')"
    by (simp_all add: two applied_path sep replace_char_def)
  with first again same one changed show ?thesis by simp
qed

subsection \<open>Files that are not work files\<close>

lemma compute_backup_output_path_no_fields:
  "work_fields a = [] \<Longrightarrow>
   compute_backup_output_path a w = (Inl (TankError not_a_work_file), w\<lparr>logged := hip_log a w\<rparr>)"
  by (simp add: compute_backup_output_path_def get_hipfile_fields_eq seq_def raise_def)

lemma compute_output_path_no_fields:
  "work_fields a = [] \<Longrightarrow>
   compute_output_path a w = (Inl (TankError not_a_work_file), w\<lparr>logged := hip_log a w\<rparr>)"
  by (simp add: compute_output_path_unfold)

lemma work_fields_invalid:
  "\<forall>t. work_file_template a = Some t \<longrightarrow> \<not> validate t (work_file_path a) \<Longrightarrow> work_fields a = []"
  by (simp add: work_fields_def split: option.splits)

text \<open>
  C5, as the code has it. The path that is validated is the one \<open>_get_hipfile_fields\<close>
  resolves: the hip file path when the user interface is available, otherwise the
  environment variable \<open>NOZ_HIPFILE\<close> (the empty string when it is not set). Whenever
  that path does not validate against the work file template, \<open>_compute_output_path\<close>
  and \<open>_compute_backup_output_path\<close> raise \<open>TankError\<close>, return no path, leave the
  node as it is and apply no template.
\<close>

theorem compute_paths_raise_for_invalid_work_file:
  assumes "\<forall>t. work_file_template a = Some t \<longrightarrow> \<not> validate t (work_file_path a)"
  shows "fst (compute_output_path a w) = Inl (TankError not_a_work_file) \<and>
         fst (compute_backup_output_path a w) = Inl (TankError not_a_work_file) \<and>
         cur (snd (compute_output_path a w)) = cur w \<and>
         cur (snd (compute_backup_output_path a w)) = cur w \<and>
         applied (snd (compute_output_path a w)) = applied w \<and>
         applied (snd (compute_backup_output_path a w)) = applied w"
  using work_fields_invalid [OF assms]
  by (simp add: compute_output_path_no_fields compute_backup_output_path_no_fields)

theorem compute_paths_raise_for_invalid_work_file_witness:
  "work_file_template lost_app = Some demo_work_template \<and>
   \<not> validate demo_work_template (work_file_path lost_app) \<and>
   fst (compute_output_path lost_app demo_world) = Inl (TankError not_a_work_file) \<and>
   fst (compute_backup_output_path lost_app demo_world) = Inl (TankError not_a_work_file) \<and>
   cur (snd (compute_output_path lost_app demo_world)) = cur demo_world"
proof -
  have t: "work_file_template lost_app = Some demo_work_template"
    by (simp add: lost_app_def demo_app_def)
  have v: "\<not> validate demo_work_template (work_file_path lost_app)" by code_simp
  from t v have "\<forall>t. work_file_template lost_app = Some t \<longrightarrow> \<not> validate t (work_file_path lost_app)"
    by simp
  from compute_paths_raise_for_invalid_work_file [OF this, of demo_world] t v
  show ?thesis by simp
qed

text \<open>
  C5 as stated fails without the user interface: the hip file of the session does not
  validate, the work file named by \<open>NOZ_HIPFILE\<close> does, and both paths are computed.
\<close>

theorem farm_hip_file_counterexample:
  "work_file_template farm_app = Some demo_work_template \<and>
   \<not> validate demo_work_template (hipFile_path farm_app) \<and>
   fst (compute_output_path farm_app demo_world) =
     Inr (Some ''/proj/cache/cacheMain/v001/cacheMain.$F4.bgeo.sc'') \<and>
   fst (compute_backup_output_path farm_app demo_world) = Inr ''/proj/backup/cacheMain_v001.hip''"
proof -
  have "work_file_template farm_app = Some demo_work_template"
    by (simp add: farm_app_def demo_app_def)
  moreover have "\<not> validate demo_work_template (hipFile_path farm_app)" by code_simp
  moreover have "fst (compute_output_path farm_app demo_world) =
     Inr (Some ''/proj/cache/cacheMain/v001/cacheMain.$F4.bgeo.sc'')" by code_simp
  moreover have "fst (compute_backup_output_path farm_app demo_world) =
     Inr ''/proj/backup/cacheMain_v001.hip''" by code_simp
  ultimately show ?thesis by simp
qed

lemma node_name_after_compute: "node_name (cur (snd (compute_output_path a w))) = node_name (cur w)"
  by (simp add: compute_output_path_unfold Let_def split: sum.splits)

subsection \<open>The menu of the output path\<close>

text \<open>
  C9. When \<open>_compute_output_path\<close> raises \<open>TankError\<close>, \<open>get_output_path_menu_items\<close>
  raises \<open>UnboundLocalError\<close> (a \<open>NameError\<close>) if the user interface is available, since
  \<open>path\<close> was never bound; it returns the error menu only if the user interface is not
  available.
\<close>

theorem menu_items_unbound_path:
  assumes "fst (compute_output_path a w) = Inl (TankError e)"
  shows "(isUIAvailable a \<longrightarrow> fst (get_output_path_menu_items a w) = Inl UnboundLocalError) \<and>
         (\<not> isUIAvailable a \<longrightarrow>
            fst (get_output_path_menu_items a w) =
              Inr [Some (''ERROR: '' @ menu_error_msg (node_name (cur w)) e),
                   Some (''ERROR: '' @ menu_error_msg (node_name (cur w)) e)])"
proof -
  obtain w1 where c: "compute_output_path a w = (Inl (TankError e), w1)"
    using assms by (cases "compute_output_path a w") simp
  have n: "node_name (cur w1) = node_name (cur w)"
    using node_name_after_compute [of a w] c by simp
  show ?thesis
    by (simp add: get_output_path_menu_items_def c n seq_def raise_def ret_def)
qed

theorem menu_items_unbound_path_witness:
  "fst (compute_output_path lost_app demo_world) = Inl (TankError not_a_work_file) \<and>
   isUIAvailable lost_app \<and>
   fst (get_output_path_menu_items lost_app demo_world) = Inl UnboundLocalError \<and>
   fst (compute_output_path headless_app demo_world) = Inl (TankError not_a_work_file) \<and>
   \<not> isUIAvailable headless_app \<and>
   fst (get_output_path_menu_items headless_app demo_world) =
     Inr [Some (''ERROR: '' @ menu_error_msg ''cache_main'' not_a_work_file),
          Some (''ERROR: '' @ menu_error_msg ''cache_main'' not_a_work_file)]"
proof -
  have l: "fst (compute_output_path lost_app demo_world) = Inl (TankError not_a_work_file)"
    by code_simp
  have h: "fst (compute_output_path headless_app demo_world) = Inl (TankError not_a_work_file)"
    by code_simp
  have ui: "isUIAvailable lost_app" "\<not> isUIAvailable headless_app"
    by (simp_all add: lost_app_def headless_app_def demo_app_def)
  have nm: "node_name (cur demo_world) = ''cache_main''"
    by (simp add: demo_world_def demo_node_def)
  from menu_items_unbound_path [OF l] menu_items_unbound_path [OF h] ui nm l h
  show ?thesis by simp
qed

subsection \<open>The next version\<close>

lemma max_version_loop_fold:
  "map (\<lambda>c. map_of (get_fields t c) ''version'') cs = map (\<lambda>v. Some (FInt v)) vs \<Longrightarrow>
   max_version_loop t cs m = Inr (fold max vs m)"
proof (induction cs arbitrary: vs m)
  case Nil
  then show ?case by simp
next
  case (Cons c cs)
  then obtain v vs' where vs: "vs = v # vs'" by (cases vs) auto
  with Cons.prems have h: "map_of (get_fields t c) ''version'' = Some (FInt v)"
    and r: "map (\<lambda>c. map_of (get_fields t c) ''version'') cs = map (\<lambda>v. Some (FInt v)) vs'"
    by simp_all
  have "(if v > m then v else m) = max v m" by (simp add: max_def)
  with Cons.IH [OF r] h vs show ?case by simp
qed

lemma fold_max_nonneg:
  "\<forall>v\<in>set vs. (0::int) \<le> v \<Longrightarrow> fold max vs 0 = (if vs = [] then 0 else Max (set vs))"
proof (cases vs)
  case Nil
  then show ?thesis by simp
next
  case (Cons v vs')
  assume nn: "\<forall>v\<in>set vs. (0::int) \<le> v"
  have "fold max vs 0 = Max (set (0 # vs))" by (rule Max.set_eq_fold [symmetric])
  also have "\<dots> = max 0 (Max (set vs))" using Cons by simp
  also have "\<dots> = Max (set vs)"
  proof -
    have "0 \<le> Max (set vs)" using nn Cons by (simp add: Max_ge_iff)
    then show ?thesis by simp
  qed
  finally show ?thesis using Cons by simp
qed

lemma find_update_parm:
  "(\<And>q. parm_name (f q) = parm_name q) \<Longrightarrow>
   find (\<lambda>p. parm_name p = nm) (update_parm nm' f ps) =
     (if nm = nm' then map_option f (find (\<lambda>p. parm_name p = nm) ps)
      else find (\<lambda>p. parm_name p = nm) ps)"
  by (induction ps) auto

lemma parms_after_compute:
  "parms (cur (snd (compute_output_path a w))) = parms (cur w)"
  by (simp add: compute_output_path_unfold Let_def split: sum.splits)

lemma version_of_parms: "parms n' = parms n \<Longrightarrow> version_of n' = version_of n"
  by (simp add: version_of_def the_parm_def parm_def)

lemma highest_version_eq:
  assumes "get_output_profile a n = Inr prof" "extension_of n = Inr ext" "getNodeName n = Inr nm"
    "template_named a (output_cache_template prof) = Inr t"
    "map (\<lambda>c. map_of (get_fields t c) ''version'')
       (abstract_paths_from_template a t (version_fields a t hf nm ext)) =
     map (\<lambda>v. Some (FInt v)) vs"
    "\<forall>v\<in>set vs. 0 \<le> v"
  shows "highest_version a n hf = Inr (if vs = [] then 0 else Max (set vs))"
  using assms(1-4) max_version_loop_fold [OF assms(5), of 0] fold_max_nonneg [OF assms(6)]
  by (simp add: highest_version_def bnd_def)

lemma assign_next_version_eq:
  assumes "highest_version a (cur w) (work_fields a) = Inr m"
    "parm (cur w) ''ver'' = Some p" "accepts a (parmTemplate p) (IntV (m + 1))"
  shows "assign_next_version a w =
     (Inr (), w\<lparr>logged := hip_log a w,
                cur := (cur w)\<lparr>parms := update_parm ''ver'' (\<lambda>q. q\<lparr>raw := IntV (m + 1)\<rparr>)
                                          (parms (cur w))\<rparr>\<rparr>)"
  using assms
  by (simp add: assign_next_version_def get_hipfile_fields_eq seq_def lift_def set_cur_parm_def
      set_parm_def)

lemma version_of_updated:
  assumes "parm n ''ver'' = Some p"
  shows "version_of (n\<lparr>parms := update_parm ''ver'' (\<lambda>q. q\<lparr>raw := IntV k\<rparr>) (parms n)\<rparr>) = Inr k"
  using assms
  by (simp add: version_of_def the_parm_def parm_def find_update_parm bnd_def eval_int_def)

lemma reserve_directory_cases:
  "reserve_directory a w =
     (case compute_output_path a w of
        (Inl e, w2) \<Rightarrow> (Inl e, w2)
      | (Inr None, w2) \<Rightarrow> (Inr (), w2)
      | (Inr (Some pth), w2) \<Rightarrow>
          if pth = [] then (Inr (), w2)
          else if dirname pth \<in> set (disk w2) then (Inr (), w2)
          else makedirs (dirname pth) w2)"
  by (simp add: reserve_directory_def seq_def ret_def split: prod.splits sum.splits option.splits)

lemma parms_after_reserve:
  "parms (cur (snd (reserve_directory a w))) = parms (cur w)"
proof -
  have "cur (snd (reserve_directory a w)) = cur (snd (compute_output_path a w))"
    by (simp add: reserve_directory_cases makedirs_def split: prod.splits sum.splits option.splits)
  then show ?thesis by (simp add: parms_after_compute)
qed

text \<open>
  C4. When the existing cache paths carry the versions \<open>vs\<close> (none of them negative),
  \<open>auto_version\<close> sets the \<open>ver\<close> parameter of the node to one more than the highest of
  them, and to 1 when there is none; the parameter keeps that value to the end of the call.
  Then, when the output path is computed, its directory exists on disk at the end of the
  call, and nothing is created when it existed already.
\<close>

theorem auto_version_next:
  assumes "get_output_profile a (cur w) = Inr prof" "extension_of (cur w) = Inr ext"
    "getNodeName (cur w) = Inr nm" "template_named a (output_cache_template prof) = Inr t"
    "map (\<lambda>c. map_of (get_fields t c) ''version'')
       (abstract_paths_from_template a t (version_fields a t (work_fields a) nm ext)) =
     map (\<lambda>v. Some (FInt v)) vs"
    "\<forall>v\<in>set vs. 0 \<le> v"
    "parm (cur w) ''ver'' = Some p"
    "accepts a (parmTemplate p) (IntV ((if vs = [] then 0 else Max (set vs)) + 1))"
  shows "\<exists>w1. assign_next_version a w = (Inr (), w1) \<and>
           auto_version a w = reserve_directory a w1 \<and>
           version_of (cur w1) = Inr (if vs = [] then 1 else Max (set vs) + 1) \<and>
           version_of (cur (snd (auto_version a w))) = Inr (if vs = [] then 1 else Max (set vs) + 1) \<and>
           (\<forall>pth w2. compute_output_path a w1 = (Inr (Some pth), w2) \<and> pth \<noteq> [] \<and>
                     dirname pth \<noteq> [] \<longrightarrow>
              fst (auto_version a w) = Inr () \<and>
              dirname pth \<in> set (disk (snd (auto_version a w))) \<and>
              (dirname pth \<in> set (disk w2) \<longrightarrow> snd (auto_version a w) = w2))"
proof -
  let ?m = "if vs = [] then 0 else Max (set vs)"
  let ?n = "(cur w)\<lparr>parms := update_parm ''ver'' (\<lambda>q. q\<lparr>raw := IntV (?m + 1)\<rparr>) (parms (cur w))\<rparr>"
  let ?w1 = "w\<lparr>logged := hip_log a w, cur := ?n\<rparr>"
  have hv: "highest_version a (cur w) (work_fields a) = Inr ?m"
    by (rule highest_version_eq [OF assms(1-6)])
  have a1: "assign_next_version a w = (Inr (), ?w1)"
    by (rule assign_next_version_eq [OF hv assms(7) assms(8)])
  have av: "auto_version a w = reserve_directory a ?w1"
    by (simp add: auto_version_def seq_def a1)
  have v1: "version_of (cur ?w1) = Inr (?m + 1)"
    using version_of_updated [OF assms(7), of "?m + 1"] by simp
  have v2: "version_of (cur (snd (auto_version a w))) = Inr (?m + 1)"
  proof -
    have "parms (cur (snd (auto_version a w))) = parms (cur ?w1)"
      by (simp only: av parms_after_reserve)
    then have "version_of (cur (snd (auto_version a w))) = version_of (cur ?w1)"
      by (rule version_of_parms)
    with v1 show ?thesis by simp
  qed
  have dir: "\<forall>pth w2. compute_output_path a ?w1 = (Inr (Some pth), w2) \<and> pth \<noteq> [] \<and>
                     dirname pth \<noteq> [] \<longrightarrow>
              fst (auto_version a w) = Inr () \<and>
              dirname pth \<in> set (disk (snd (auto_version a w))) \<and>
              (dirname pth \<in> set (disk w2) \<longrightarrow> snd (auto_version a w) = w2)"
    by (simp add: av reserve_directory_cases makedirs_def)
  have m1: "?m + 1 = (if vs = [] then 1 else Max (set vs) + 1)" by simp
  from a1 av v1 v2 dir show ?thesis unfolding m1 by blast
qed

theorem auto_version_next_witness:
  "Min (set [2, 5, 1 :: int]) = 1 \<and>
   version_of (cur demo_world) = Inr 1 \<and>
   version_of (cur (snd (auto_version versions_app demo_world))) = Inr 6 \<and>
   fst (auto_version versions_app demo_world) = Inr () \<and>
   disk demo_world = [] \<and>
   ''/proj/cache/cacheMain/v006'' \<in> set (disk (snd (auto_version versions_app demo_world))) \<and>
   version_of (cur (snd (auto_version demo_app demo_world))) = Inr 1"
proof -
  let ?p = "''/proj/cache/cacheMain/v006/cacheMain.$F4.bgeo.sc''"
  have h1: "get_output_profile versions_app (cur demo_world) = Inr demo_profile" by code_simp
  have h2: "extension_of (cur demo_world) = Inr ''bgeo.sc''" by code_simp
  have h3: "getNodeName (cur demo_world) = Inr ''cacheMain''" by code_simp
  have h4: "template_named versions_app (output_cache_template demo_profile) = Inr demo_cache_template"
    by (simp add: template_named_def versions_app_def demo_app_def demo_profile_def)
  have h5: "map (\<lambda>c. map_of (get_fields demo_cache_template c) ''version'')
       (abstract_paths_from_template versions_app demo_cache_template
          (version_fields versions_app demo_cache_template (work_fields versions_app)
             ''cacheMain'' ''bgeo.sc'')) =
     map (\<lambda>v. Some (FInt v)) [2, 5, 1]"
    by (simp add: versions_app_def demo_app_def demo_cache_template_def)
  have h6: "\<forall>v\<in>set [2, 5, 1 :: int]. 0 \<le> v" by simp
  have h7: "parm (cur demo_world) ''ver'' = Some (plain_parm ''ver'' IntParmTemplate (IntV 1))"
    by (simp add: parm_def demo_world_def demo_node_def menu_parm_def plain_parm_def)
  have h8: "accepts versions_app (parmTemplate (plain_parm ''ver'' IntParmTemplate (IntV 1)))
      (IntV ((if [2, 5, 1 :: int] = [] then 0 else Max (set [2, 5, 1])) + 1))"
    by (simp add: versions_app_def demo_app_def basic_accepts_def plain_parm_def)
  from auto_version_next [OF h1 h2 h3 h4 h5 h6 h7 h8] obtain w1 where
    a: "assign_next_version versions_app demo_world = (Inr (), w1)"
    and v: "version_of (cur (snd (auto_version versions_app demo_world))) =
        Inr (if [2, 5, 1 :: int] = [] then 1 else Max (set [2, 5, 1]) + 1)"
    and d: "\<forall>pth w2. compute_output_path versions_app w1 = (Inr (Some pth), w2) \<and> pth \<noteq> [] \<and>
                     dirname pth \<noteq> [] \<longrightarrow>
              fst (auto_version versions_app demo_world) = Inr () \<and>
              dirname pth \<in> set (disk (snd (auto_version versions_app demo_world)))"
    by blast
  have w1: "w1 = snd (assign_next_version versions_app demo_world)" by (simp add: a)
  have "fst (compute_output_path versions_app (snd (assign_next_version versions_app demo_world))) =
      Inr (Some ?p)" by code_simp
  then have c: "compute_output_path versions_app w1 =
      (Inr (Some ?p), snd (compute_output_path versions_app w1))"
    by (simp add: w1 prod_eq_iff)
  have dn: "dirname ?p = ''/proj/cache/cacheMain/v006''" by code_simp
  from d c dn have r: "fst (auto_version versions_app demo_world) = Inr ()"
    "''/proj/cache/cacheMain/v006'' \<in> set (disk (snd (auto_version versions_app demo_world)))"
    by fastforce+
  have v0: "version_of (cur demo_world) = Inr 1" by code_simp
  have e: "disk demo_world = []" by (simp add: demo_world_def)
  have one: "version_of (cur (snd (auto_version demo_app demo_world))) = Inr 1" by code_simp
  from v have "version_of (cur (snd (auto_version versions_app demo_world))) = Inr 6" by simp
  moreover have "Min (set [2, 5, 1 :: int]) = 1" by simp
  ultimately show ?thesis using r v0 e one by simp
qed

subsection \<open>Publishing a cache\<close>

lemma title_from_nonempty: "s \<noteq> [] \<Longrightarrow> title_from b s \<noteq> []"
  by (cases s) auto

lemma file_type_name_nonempty: "file_type_name cache_type \<noteq> []"
  by (simp add: file_type_name_def)

lemma publish_cache_eq:
  "publish_cache cache_path backup_path cache_type version w =
     (case getNodeName (cur w) of
        Inl e \<Rightarrow> (Inl e, w)
      | Inr nm \<Rightarrow>
          (Inr (), w\<lparr>publishes := publishes w @
             [\<lparr>pub_path = cache_path, pub_name = nm,
               published_file_type = file_type_name cache_type, version_number = version,
               dependency_paths = [backup_path]\<rparr>]\<rparr>))"
  by (simp add: publish_cache_def file_type_name_nonempty seq_def cur_node_name_def
      register_publish_def split: sum.splits)

lemma compute_backup_unfold:
  "compute_backup_output_path a w =
     (\<lambda>(r, k). (r, w\<lparr>logged := hip_log a w, applied := applied w + k\<rparr>))
       (if work_fields a = [] then (Inl (TankError not_a_work_file), 0)
        else case bnd (extension_of (cur w)) (\<lambda>extension.
                    bnd (getNodeName (cur w)) (\<lambda>nm.
                    bnd (version_of (cur w)) (\<lambda>ver.
                    bnd (get_output_profile a (cur w)) (\<lambda>output_profile.
                    bnd (template_named a (output_backup_template output_profile)) (\<lambda>t.
                      Inr ([(''name'', name_field (work_fields a)), (''node'', FStr nm),
                            (''version'', FInt ver), (''ext'', FStr extension)], t)))))) of
          Inl e \<Rightarrow> (Inl e, 0)
        | Inr (fs, t) \<Rightarrow>
            (case apply_fields t (dict_update fs (as_template_fields a t)) of
               Inl e \<Rightarrow> (Inl e, 1)
             | Inr p \<Rightarrow> (Inr (replace_char (os_sep a) CHR ''/'' p), 1)))"
  by (simp add: compute_backup_output_path_def get_hipfile_fields_eq seq_def raise_def lift_def
      ret_def apply_template_def split: sum.splits prod.splits)

lemma backup_keeps:
  "cur (snd (compute_backup_output_path a w)) = cur w \<and>
   publishes (snd (compute_backup_output_path a w)) = publishes w"
  by (simp add: compute_backup_unfold split: sum.splits prod.splits)

lemma compute_keeps:
  "publishes (snd (compute_output_path a w)) = publishes w \<and>
   parms (cur (snd (compute_output_path a w))) = parms (cur w) \<and>
   node_name (cur (snd (compute_output_path a w))) = node_name (cur w)"
  by (simp add: compute_output_path_unfold Let_def split: sum.splits)

lemma compute_reads:
  assumes "fst (compute_output_path a w) = Inr r"
  shows "\<exists>ext nm ver. extension_of (cur w) = Inr ext \<and> getNodeName (cur w) = Inr nm \<and>
           version_of (cur w) = Inr ver"
proof -
  have "\<exists>pf. path_fields_of a (cur w) (work_fields a) = Inr pf"
    using assms
    by (cases "path_fields_of a (cur w) (work_fields a)")
      (auto simp: compute_output_path_unfold Let_def split: if_splits)
  then show ?thesis
    by (auto simp: path_fields_of_def bnd_def split: sum.splits)
qed

lemma reads_cong:
  "parms n' = parms n \<Longrightarrow> node_name n' = node_name n \<Longrightarrow>
   extension_of n' = extension_of n \<and> getNodeName n' = getNodeName n \<and> version_of n' = version_of n"
  by (simp add: extension_of_def getNodeName_def version_of_def the_parm_def parm_def)

lemma auto_publish_outcome:
  assumes c: "compute_output_path a w = (Inr (Some cache_path), w1)"
    and nopub: "filter (\<lambda>p. pub_path p = cache_path) (publishes w) = []"
  shows "((\<exists>e. fst (auto_publish a w) = Inl e) \<and> publishes (snd (auto_publish a w)) = publishes w) \<or>
     (fst (auto_publish a w) = Inr () \<and>
      (\<exists>b c ext. publishes (snd (auto_publish a w)) = publishes w @ [b, c] \<and>
         published_file_type b = ''Backup File'' \<and> pub_path c = cache_path \<and>
         extension_of (cur w) = Inr ext \<and> published_file_type c = file_type_name ext \<and>
         dependency_paths c = [pub_path b]))"
proof -
  have w1: "w1 = snd (compute_output_path a w)" by (simp add: c)
  have p1: "publishes w1 = publishes w" unfolding w1 by (simp add: compute_keeps)
  have "fst (compute_output_path a w) = Inr (Some cache_path)" by (simp add: c)
  from compute_reads [OF this] obtain ext nm ver where
    r: "extension_of (cur w) = Inr ext" "getNodeName (cur w) = Inr nm" "version_of (cur w) = Inr ver"
    by blast
  have same: "parms (cur w1) = parms (cur w)" "node_name (cur w1) = node_name (cur w)"
    unfolding w1 by (simp_all add: compute_keeps)
  from reads_cong [OF same] r have
    r1: "extension_of (cur w1) = Inr ext" "getNodeName (cur w1) = Inr nm" "version_of (cur w1) = Inr ver"
    by simp_all
  obtain rb w2 where b: "compute_backup_output_path a w1 = (rb, w2)"
    by (cases "compute_backup_output_path a w1") blast
  have w2: "cur w2 = cur w1" "publishes w2 = publishes w1"
    using backup_keeps [of a w1] b by simp_all
  show ?thesis
  proof (cases "scene_refs a (obj_children a)")
    case (Inl e)
    then have "auto_publish a w = (Inl e, w1)"
      using nopub p1 by (simp add: auto_publish_def seq_def c lift_def)
    then show ?thesis by (simp add: p1)
  next
    case refs: (Inr refs)
    show ?thesis
    proof (cases rb)
      case (Inl e)
      then have "auto_publish a w = (Inl e, w2)"
        using nopub p1 refs r1 b by (simp add: auto_publish_def seq_def c lift_def)
      then show ?thesis by (simp add: p1 w2)
    next
      case (Inr backup_path)
      let ?b = "\<lparr>pub_path = backup_path, pub_name = nm, published_file_type = ''Backup File'',
                 version_number = ver, dependency_paths = refs\<rparr>"
      let ?c = "\<lparr>pub_path = cache_path, pub_name = nm,
                 published_file_type = file_type_name ext, version_number = ver,
                 dependency_paths = [backup_path]\<rparr>"
      have "auto_publish a w = (Inr (), w2\<lparr>publishes := publishes w2 @ [?b, ?c]\<rparr>)"
        using nopub p1 refs r1 b Inr w2
        by (simp add: auto_publish_def seq_def c lift_def cur_node_name_def register_publish_def
            publish_cache_eq)
      then have "fst (auto_publish a w) = Inr ()"
        and "publishes (snd (auto_publish a w)) = publishes w @ [?b, ?c]"
        by (simp_all add: w2 p1)
      moreover have "published_file_type ?b = ''Backup File''" "pub_path ?c = cache_path"
        "published_file_type ?c = file_type_name ext" "dependency_paths ?c = [pub_path ?b]"
        by simp_all
      ultimately show ?thesis using r(1) by blast
    qed
  qed
qed

text \<open>
  C10. The name of the published file type is never empty (an extension other than
  \<open>bgeo.sc\<close>, \<open>abc\<close> and \<open>exr\<close> gives its title followed by \<open>Cache\<close>), so the cache is
  registered and the branch that logs \<open>Could not find the cache_type\<close> is never taken: the
  log is left as it is. When the cache path has no publish yet, \<open>auto_publish\<close> either
  raises before any registration, or registers the backup file and then the cache, which
  depends on the backup file.
\<close>

theorem auto_publish_registers_both:
  "file_type_name cache_type \<noteq> [] \<and>
   (getNodeName (cur u) = Inr nm \<longrightarrow>
      publish_cache cache_path backup_path cache_type version u =
        (Inr (), u\<lparr>publishes := publishes u @
           [\<lparr>pub_path = cache_path, pub_name = nm,
             published_file_type = file_type_name cache_type, version_number = version,
             dependency_paths = [backup_path]\<rparr>]\<rparr>)) \<and>
   (compute_output_path a w = (Inr (Some cache_path), w') \<and>
    filter (\<lambda>p. pub_path p = cache_path) (publishes w) = [] \<longrightarrow>
      ((\<exists>e. fst (auto_publish a w) = Inl e) \<and> publishes (snd (auto_publish a w)) = publishes w) \<or>
      (fst (auto_publish a w) = Inr () \<and>
       (\<exists>b c ext. publishes (snd (auto_publish a w)) = publishes w @ [b, c] \<and>
          published_file_type b = ''Backup File'' \<and> pub_path c = cache_path \<and>
          extension_of (cur w) = Inr ext \<and> published_file_type c = file_type_name ext \<and>
          dependency_paths c = [pub_path b])))"
  using auto_publish_outcome [of a w cache_path w']
  by (simp add: file_type_name_nonempty publish_cache_eq)

theorem auto_publish_registers_both_witness:
  "compute_output_path demo_app demo_world =
     (Inr (Some ''/proj/cache/cacheMain/v001/cacheMain.$F4.bgeo.sc''), demo_world_cached) \<and>
   filter (\<lambda>p. pub_path p = ''/proj/cache/cacheMain/v001/cacheMain.$F4.bgeo.sc'')
     (publishes demo_world) = [] \<and>
   fst (auto_publish demo_app demo_world) = Inr () \<and>
   (\<exists>b c. publishes (snd (auto_publish demo_app demo_world)) = publishes demo_world @ [b, c] \<and>
      published_file_type b = ''Backup File'' \<and>
      pub_path c = ''/proj/cache/cacheMain/v001/cacheMain.$F4.bgeo.sc'' \<and>
      published_file_type c = ''Bgeo Cache'' \<and> dependency_paths c = [pub_path b]) \<and>
   file_type_name ''vdb'' = ''Vdb Cache''"
proof -
  let ?p = "''/proj/cache/cacheMain/v001/cacheMain.$F4.bgeo.sc''"
  have first: "compute_output_path demo_app demo_world = (Inr (Some ?p), demo_world_cached)"
  proof -
    have "fst (compute_output_path demo_app demo_world) = Inr (Some ?p)" by code_simp
    then show ?thesis by (simp add: demo_world_cached_def prod_eq_iff)
  qed
  have none: "filter (\<lambda>p. pub_path p = ?p) (publishes demo_world) = []"
    by (simp add: demo_world_def)
  have ok: "fst (auto_publish demo_app demo_world) = Inr ()" by code_simp
  have ext: "extension_of (cur demo_world) = Inr ''bgeo.sc''" by code_simp
  have bgeo: "file_type_name ''bgeo.sc'' = ''Bgeo Cache''" by (simp add: file_type_name_def)
  have vdb: "file_type_name ''vdb'' = ''Vdb Cache''" by code_simp
  from auto_publish_registers_both
    [where a = demo_app and w = demo_world and cache_path = ?p and w' = demo_world_cached]
    first none ok
  have "\<exists>b c ext. publishes (snd (auto_publish demo_app demo_world)) = publishes demo_world @ [b, c] \<and>
          published_file_type b = ''Backup File'' \<and> pub_path c = ?p \<and>
          extension_of (cur demo_world) = Inr ext \<and> published_file_type c = file_type_name ext \<and>
          dependency_paths c = [pub_path b]"
    by simp
  with ext bgeo have "\<exists>b c. publishes (snd (auto_publish demo_app demo_world)) = publishes demo_world @ [b, c] \<and>
      published_file_type b = ''Backup File'' \<and> pub_path c = ?p \<and>
      published_file_type c = ''Bgeo Cache'' \<and> dependency_paths c = [pub_path b]"
    by auto
  with first none ok vdb show ?thesis by simp
qed

subsection \<open>The status of a sequence\<close>

text \<open>
  C8. When the output path holds the frame token \<open>$F4\<close> and \<open>pyseq\<close> finds exactly one
  sequence for it, which is not empty, \<open>check_seq\<close> colours the node red (never green) and
  sets the status label: the full frame range (\<open>%R\<close>) when no frame is missing, and the
  first and last frame with the missing frames (\<open>%M\<close>) otherwise. The loop over the
  dependents is taken to end without an exception.
\<close>

theorem check_seq_one_sequence:
  assumes "compute_output_path a w = (Inr (Some pth), w')"
    "contains pth ''$F4''"
    "get_sequences a (py_replace pth ''$F4'' ''*'') = [s]" "seq_frames s \<noteq> []"
    "label_dependents a (path (cur w')) (sequence_label a s) (dependents w') = (Inr (), ds)"
    "parm (cur w') ''seqlabel'' = Some p" "accepts a (parmTemplate p) (StrV (sequence_label a s))"
  shows "fst (check_seq a w) = Inr () \<and>
         color (cur (snd (check_seq a w))) = red \<and> red \<noteq> green \<and>
         map_option raw (parm (cur (snd (check_seq a w))) ''seqlabel'') =
           Some (StrV (if seq_missing s = [] then seq_format a s ''%R''
                       else ''['' @ seq_format a s ''%s'' @ ''-'' @ seq_format a s ''%e''
                            @ ''], missing '' @ seq_format a s ''%M''))"
proof -
  let ?l = "sequence_label a s"
  let ?n = "(cur w')\<lparr>color := red\<rparr>"
  have st: "seq_status a (disk w') pth = (?l, red)"
    using assms(2-4) by (simp add: seq_status_def)
  have p': "parm ?n ''seqlabel'' = Some p" using assms(6) by (simp add: parm_def)
  have r: "check_seq a w =
      (Inr (), w'\<lparr>dependents := ds,
                 cur := ?n\<lparr>parms := update_parm ''seqlabel'' (\<lambda>q. q\<lparr>raw := StrV ?l\<rparr>) (parms ?n)\<rparr>\<rparr>)"
    using assms(5,7) p'
    by (simp add: check_seq_def seq_def assms(1) st setColor_def set_cur_parm_def set_parm_def)
  have f: "find (\<lambda>q. parm_name q = ''seqlabel'')
        (update_parm ''seqlabel'' (\<lambda>q. q\<lparr>raw := StrV ?l\<rparr>) (parms (cur w'))) =
      map_option (\<lambda>q. q\<lparr>raw := StrV ?l\<rparr>) (find (\<lambda>q. parm_name q = ''seqlabel'') (parms (cur w')))"
    by (simp add: find_update_parm)
  have lbl: "(if seq_missing s = [] then seq_format a s ''%R''
                       else ''['' @ seq_format a s ''%s'' @ ''-'' @ seq_format a s ''%e''
                            @ ''], missing '' @ seq_format a s ''%M'') = ?l"
    by (simp add: sequence_label_def)
  have c1: "fst (check_seq a w) = Inr ()" by (simp add: r)
  have c2: "color (cur (snd (check_seq a w))) = red" by (simp add: r)
  have c3: "red \<noteq> green" by (simp add: red_def green_def)
  have c4: "map_option raw (parm (cur (snd (check_seq a w))) ''seqlabel'') = Some (StrV ?l)"
    using assms(6) by (simp add: r parm_def f)
  show ?thesis unfolding lbl using c1 c2 c3 c4 by blast
qed

theorem check_seq_one_sequence_witness:
  "contains ''/proj/cache/cacheMain/v001/cacheMain.$F4.bgeo.sc'' ''$F4'' \<and>
   fst (check_seq complete_app demo_world) = Inr () \<and>
   color (cur (snd (check_seq complete_app demo_world))) = red \<and>
   map_option raw (parm (cur (snd (check_seq complete_app demo_world))) ''seqlabel'') =
     Some (StrV ''1-3'') \<and>
   seq_missing \<lparr>seq_frames = [1, 2, 5]\<rparr> = [3, 4] \<and>
   color (cur (snd (check_seq gappy_app demo_world))) = red \<and>
   map_option raw (parm (cur (snd (check_seq gappy_app demo_world))) ''seqlabel'') =
     Some (StrV ''[1-5], missing 3 4 '')"
proof -
  let ?p = "''/proj/cache/cacheMain/v001/cacheMain.$F4.bgeo.sc''"
  let ?s = "\<lparr>seq_frames = [1, 2, 3]\<rparr>"
  let ?g = "\<lparr>seq_frames = [1, 2, 5]\<rparr>"
  let ?w = "snd (compute_output_path complete_app demo_world)"
  let ?v = "snd (compute_output_path gappy_app demo_world)"
  let ?q = "plain_parm ''seqlabel'' StringParmTemplate (StrV [])"
  have h1: "compute_output_path complete_app demo_world = (Inr (Some ?p), ?w)"
  proof -
    have "fst (compute_output_path complete_app demo_world) = Inr (Some ?p)" by code_simp
    then show ?thesis by (simp add: prod_eq_iff)
  qed
  have g1: "compute_output_path gappy_app demo_world = (Inr (Some ?p), ?v)"
  proof -
    have "fst (compute_output_path gappy_app demo_world) = Inr (Some ?p)" by code_simp
    then show ?thesis by (simp add: prod_eq_iff)
  qed
  have h2: "contains ?p ''$F4''" by code_simp
  have h3: "get_sequences complete_app (py_replace ?p ''$F4'' ''*'') = [?s]" by code_simp
  have g3: "get_sequences gappy_app (py_replace ?p ''$F4'' ''*'') = [?g]" by code_simp
  have h4: "seq_frames ?s \<noteq> []" "seq_frames ?g \<noteq> []" by simp_all
  have h5: "label_dependents complete_app (path (cur ?w)) (sequence_label complete_app ?s)
      (dependents ?w) = (Inr (), [])" by code_simp
  have g5: "label_dependents gappy_app (path (cur ?v)) (sequence_label gappy_app ?g)
      (dependents ?v) = (Inr (), [])" by code_simp
  have h6: "parm (cur ?w) ''seqlabel'' = Some ?q" by code_simp
  have g6: "parm (cur ?v) ''seqlabel'' = Some ?q" by code_simp
  have h7: "accepts complete_app (parmTemplate ?q) (StrV (sequence_label complete_app ?s))"
    "accepts gappy_app (parmTemplate ?q) (StrV (sequence_label gappy_app ?g))"
    by (simp_all add: complete_app_def gappy_app_def demo_app_def basic_accepts_def plain_parm_def)
  have full: "(if seq_missing ?s = [] then seq_format complete_app ?s ''%R''
      else ''['' @ seq_format complete_app ?s ''%s'' @ ''-'' @ seq_format complete_app ?s ''%e''
           @ ''], missing '' @ seq_format complete_app ?s ''%M'') = ''1-3''" by code_simp
  have gaps: "(if seq_missing ?g = [] then seq_format gappy_app ?g ''%R''
      else ''['' @ seq_format gappy_app ?g ''%s'' @ ''-'' @ seq_format gappy_app ?g ''%e''
           @ ''], missing '' @ seq_format gappy_app ?g ''%M'') = ''[1-5], missing 3 4 ''" by code_simp
  have m: "seq_missing ?g = [3, 4]" by code_simp
  note c = check_seq_one_sequence [OF h1 h2 h3 h4(1) h5 h6 h7(1)]
  note d = check_seq_one_sequence [OF g1 h2 g3 h4(2) g5 g6 h7(2)]
  from c d show ?thesis unfolding full gaps using h2 m by simp
qed

subsection \<open>The codec of the output connections\<close>

lemma b64chars_length: "length b64chars = 64"
  by (simp add: b64chars_def)

lemma b64chars_distinct: "distinct b64chars"
  by (simp add: b64chars_def)

lemma b64index_b64char: "n < 64 \<Longrightarrow> b64index (b64char n) = Some n"
proof -
  assume n: "n < 64"
  have "map_of (zip b64chars [0..<64]) (b64chars ! n) = Some ([0..<64] ! n)"
    by (rule map_of_zip_nth) (simp_all add: b64chars_length b64chars_distinct n)
  with n show ?thesis by (simp add: b64index_def b64char_def)
qed

lemma b64char_not_pad: "n < 64 \<Longrightarrow> b64char n \<noteq> CHR ''=''"
proof -
  assume n: "n < 64"
  then have "b64chars ! n \<in> set b64chars" by (simp add: b64chars_length)
  moreover have "CHR ''='' \<notin> set b64chars" by (simp add: b64chars_def)
  ultimately show ?thesis by (auto simp: b64char_def)
qed

lemma byte_less: "byte c < 256"
proof -
  have "(of_char c :: nat) mod 256 = of_char c" by (rule of_char_mod_256)
  then have "(of_char c :: nat) = of_char c mod 256" by simp
  also have "\<dots> < 256" by simp
  finally show ?thesis by (simp add: byte_def)
qed

lemma char_of_byte: "char_of (byte c) = c"
  by (simp add: byte_def)



lemma group_first: "a < 256 \<Longrightarrow> b < 256 \<Longrightarrow>
    a div 4 * 4 + (a mod 4 * 16 + b div 16) div 16 = (a::nat)"
  by simp

lemma group_second: "b < 256 \<Longrightarrow> c < 256 \<Longrightarrow>
    (a mod 4 * 16 + b div 16) mod 16 * 16 + (b mod 16 * 4 + c div 64) div 4 = (b::nat)"
proof -
  assume b: "b < 256" and c: "c < 256"
  have "b div 16 < 16" using b by simp
  then have 1: "(a mod 4 * 16 + b div 16) mod 16 = b div 16" by simp
  have "c div 64 < 4" using c by simp
  then have 2: "(b mod 16 * 4 + c div 64) div 4 = b mod 16" by simp
  show ?thesis unfolding 1 2 by simp
qed

lemma group_third: "c < 256 \<Longrightarrow> (b mod 16 * 4 + c div 64) mod 4 * 64 + c mod 64 = (c::nat)"
proof -
  assume c: "c < 256"
  have "c div 64 < 4" using c by simp
  then have 1: "(b mod 16 * 4 + c div 64) mod 4 = c div 64" by simp
  show ?thesis unfolding 1 by simp
qed

lemma group_bounds:
  "a < 256 \<Longrightarrow> a div 4 < (64::nat)"
  "b < 256 \<Longrightarrow> a mod 4 * 16 + b div 16 < (64::nat)"
  "c < 256 \<Longrightarrow> b mod 16 * 4 + c div 64 < (64::nat)"
  "c mod 64 < (64::nat)"
  by simp_all

lemma b64_round_trip: "b64decode (b64encode bs) = Inr bs"
proof (induction bs rule: b64encode.induct)
  case 1
  show ?case by simp
next
  case (2 a)
  have l: "byte a div 4 < 64" "byte a mod 4 * 16 < 64" using byte_less [of a] by auto
  have e: "char_of (byte a div 4 * 4 + byte a mod 4 * 16 div 16) = a"
    by (simp add: char_of_byte)
  show ?case
    by (simp only: b64encode.simps b64decode.simps b64index_b64char [OF l(1)]
        b64index_b64char [OF l(2)] prod.case option.case e simp_thms if_True)
next
  case (3 a b)
  let ?x = "byte a div 4" and ?y = "byte a mod 4 * 16 + byte b div 16"
    and ?z = "byte b mod 16 * 4"
  have l: "?x < 64" "?y < 64" "?z < 64"
    using byte_less [of a] byte_less [of b] by auto
  have e1: "char_of (?x * 4 + ?y div 16) = a"
    by (simp only: group_first [OF byte_less byte_less] char_of_byte)
  have e2: "char_of (?y mod 16 * 16 + ?z div 4) = b"
    using group_second [OF byte_less [of b], of 0 "byte a"] by (simp add: char_of_byte)
  show ?case
    by (simp only: b64encode.simps b64decode.simps b64index_b64char [OF l(1)]
        b64index_b64char [OF l(2)] b64index_b64char [OF l(3)] b64char_not_pad [OF l(3)]
        prod.case option.case e1 e2 simp_thms if_True if_False)
next
  case (4 a b c rest)
  let ?x = "byte a div 4" and ?y = "byte a mod 4 * 16 + byte b div 16"
    and ?z = "byte b mod 16 * 4 + byte c div 64" and ?u = "byte c mod 64"
  have l: "?x < 64" "?y < 64" "?z < 64" "?u < 64"
    using byte_less [of a] byte_less [of b] byte_less [of c] by auto
  have e1: "char_of (?x * 4 + ?y div 16) = a"
    by (simp only: group_first [OF byte_less byte_less] char_of_byte)
  have e2: "char_of (?y mod 16 * 16 + ?z div 4) = b"
    by (simp only: group_second [OF byte_less byte_less] char_of_byte)
  have e3: "char_of (?z mod 4 * 64 + ?u) = c"
    by (simp only: group_third [OF byte_less] char_of_byte)
  show ?case
    by (simp only: b64encode.simps b64decode.simps append_Cons append_Nil
        b64index_b64char [OF l(1)] b64index_b64char [OF l(2)] b64index_b64char [OF l(3)]
        b64index_b64char [OF l(4)] b64char_not_pad [OF l(3)] b64char_not_pad [OF l(4)]
        prod.case option.case e1 e2 e3 simp_thms if_True if_False "4.IH" bnd_def sum.case)
qed

lemma find_codec_colon:
  "py_find (TK_OUTPUT_CONNECTION_CODEC @ '':'' @ s) '':'' = 7"
  by (simp add: py_find_def TK_OUTPUT_CONNECTION_CODEC_def)

lemma codec_named_current:
  "codec_named lib TK_OUTPUT_CONNECTION_CODEC =
     Inr \<lparr>encode = encode01 lib, decode = decode01 lib\<rparr>"
  by (simp add: codec_named_def TK_OUTPUT_CONNECTION_CODECS_def TK_OUTPUT_CONNECTION_CODEC_def)

lemma userData_setUserData: "userData (setUserData k v n) k = Some v"
  by (simp add: userData_def setUserData_def update_conv')

lemma reconnect_all:
  "\<forall>c\<in>set cs. od_node c \<in> set session_paths \<Longrightarrow>
   reconnect session_paths cs t =
     Inr (t\<lparr>outputs := outputs t @ map (\<lambda>c. (od_node c, od_input c)) cs\<rparr>)"
  by (induction cs arbitrary: t) simp_all

lemma records_of_outputs:
  "map (\<lambda>c. (od_node c, od_input c))
     (map (\<lambda>c. \<lparr>od_node = outputNode c, od_input = inputIndex c\<rparr>) (outputConnections n)) =
   outputs n"
  by (simp add: outputConnections_def comp_def case_prod_beta)

lemma decode01_encode01:
  assumes "loads lib (dumps lib data) = Inr data"
    and "decompress lib (compress lib (dumps lib data)) = Inr (dumps lib data)"
  shows "decode01 lib (encode01 lib data) = Inr data"
  by (simp add: decode01_def encode01_def b64_round_trip bnd_def assms)

lemma restore_stored:
  assumes u: "userData g TK_OUTPUT_CONNECTIONS_KEY =
      Some (TK_OUTPUT_CONNECTION_CODEC @ '':'' @ encode01 lib data)"
    and d: "decode01 lib (encode01 lib data) = Inr data"
    and l: "\<forall>c\<in>set data. od_node c \<in> set session_paths"
  shows "restore_outputs_from_user_data lib session_paths g t =
     Inr (t\<lparr>outputs := outputs t @ map (\<lambda>c. (od_node c, od_input c)) data\<rparr>)"
proof -
  let ?s = "TK_OUTPUT_CONNECTION_CODEC @ '':'' @ encode01 lib data"
  have n: "?s \<noteq> []" by (simp add: TK_OUTPUT_CONNECTION_CODEC_def)
  have a: "slice_to ?s (py_find ?s '':'') = TK_OUTPUT_CONNECTION_CODEC"
    unfolding find_codec_colon by (simp add: slice_to_def TK_OUTPUT_CONNECTION_CODEC_def)
  have b: "slice_from ?s (py_find ?s '':'' + 1) = encode01 lib data"
    unfolding find_codec_colon by (simp add: slice_from_def TK_OUTPUT_CONNECTION_CODEC_def)
  have r: "restore_outputs_from_user_data lib session_paths g t =
      (if data = [] then Inr t else reconnect session_paths data t)"
    unfolding restore_outputs_from_user_data_def u option.case Let_def a b
    using n by (simp add: codec_named_current bnd_def d)
  show ?thesis
  proof (cases "data = []")
    case True
    with r show ?thesis by simp
  next
    case False
    with r reconnect_all [OF l] show ?thesis by simp
  qed
qed

text \<open>
  Under Python 2 the entry is stored: when \<open>_save_outputs_to_user_data\<close> has stored the
  output connections of a node on a target without such an entry, and every fed node is
  still in the session, \<open>_restore_outputs_from_user_data\<close> from any node carrying that
  entry connects exactly the original (fed node, input slot) pairs to the node it is
  given.
\<close>

lemma save_then_restore_python2:
  assumes python2: "py_major lib < 3"
    and pickle: "loads lib (dumps lib data) = Inr data"
    and zlib: "decompress lib (compress lib (dumps lib data)) = Inr (dumps lib data)"
  shows "\<exists>c. codec_named lib TK_OUTPUT_CONNECTION_CODEC = Inr c \<and>
           decode c (encode c data) = Inr data \<and>
           (data = map (\<lambda>c. \<lparr>od_node = outputNode c, od_input = inputIndex c\<rparr>)
                     (outputConnections source_node) \<and>
            userData target_node TK_OUTPUT_CONNECTIONS_KEY = None \<and>
            (\<forall>c\<in>set (outputConnections source_node). outputNode c \<in> set session_paths) \<longrightarrow>
            (\<exists>stored. save_outputs_to_user_data lib source_node target_node = Inr stored \<and>
               (\<forall>g. userData g TK_OUTPUT_CONNECTIONS_KEY =
                      userData stored TK_OUTPUT_CONNECTIONS_KEY \<longrightarrow>
                  restore_outputs_from_user_data lib session_paths g tk_node =
                    Inr (tk_node\<lparr>outputs := outputs tk_node @ outputs source_node\<rparr>))))"
proof -
  let ?c = "\<lparr>encode = encode01 lib, decode = decode01 lib\<rparr>"
  let ?recs = "map (\<lambda>c. \<lparr>od_node = outputNode c, od_input = inputIndex c\<rparr>)
                     (outputConnections source_node)"
  have rt: "decode01 lib (encode01 lib data) = Inr data"
    by (rule decode01_encode01 [OF pickle zlib])
  have second: "\<exists>stored. save_outputs_to_user_data lib source_node target_node = Inr stored \<and>
               (\<forall>g. userData g TK_OUTPUT_CONNECTIONS_KEY =
                      userData stored TK_OUTPUT_CONNECTIONS_KEY \<longrightarrow>
                  restore_outputs_from_user_data lib session_paths g tk_node =
                    Inr (tk_node\<lparr>outputs := outputs tk_node @ outputs source_node\<rparr>))"
    if d: "data = ?recs" and fresh: "userData target_node TK_OUTPUT_CONNECTIONS_KEY = None"
      and live: "\<forall>c\<in>set (outputConnections source_node). outputNode c \<in> set session_paths"
  proof (cases "outputConnections source_node = []")
    case True
    then have s: "save_outputs_to_user_data lib source_node target_node = Inr target_node"
      by (simp add: save_outputs_to_user_data_def)
    from True have o: "outputs source_node = []" by (simp add: outputConnections_def)
    have "restore_outputs_from_user_data lib session_paths g tk_node =
        Inr (tk_node\<lparr>outputs := outputs tk_node @ outputs source_node\<rparr>)"
      if "userData g TK_OUTPUT_CONNECTIONS_KEY = userData target_node TK_OUTPUT_CONNECTIONS_KEY"
      for g
      using that fresh o by (simp add: restore_outputs_from_user_data_def)
    with s show ?thesis by simp
  next
    case False
    let ?stored = "setUserData TK_OUTPUT_CONNECTIONS_KEY
        (TK_OUTPUT_CONNECTION_CODEC @ '':'' @ encode01 lib data) target_node"
    have s: "save_outputs_to_user_data lib source_node target_node = Inr ?stored"
      using False python2
      by (simp add: save_outputs_to_user_data_def codec_named_current bnd_def d add_encoded_def)
    have l: "\<forall>c\<in>set data. od_node c \<in> set session_paths"
      using live by (simp add: d)
    have "restore_outputs_from_user_data lib session_paths g tk_node =
        Inr (tk_node\<lparr>outputs := outputs tk_node @ outputs source_node\<rparr>)"
      if g: "userData g TK_OUTPUT_CONNECTIONS_KEY = userData ?stored TK_OUTPUT_CONNECTIONS_KEY"
      for g
    proof -
      from g have "userData g TK_OUTPUT_CONNECTIONS_KEY =
          Some (TK_OUTPUT_CONNECTION_CODEC @ '':'' @ encode01 lib data)"
        by (simp only: userData_setUserData)
      from restore_stored [OF this rt l] show ?thesis
        by (simp only: d records_of_outputs)
    qed
    with s show ?thesis by blast
  qed
  show ?thesis
  proof (rule exI [of _ ?c], intro conjI impI)
    show "codec_named lib TK_OUTPUT_CONNECTION_CODEC = Inr ?c" by (rule codec_named_current)
    show "decode ?c (encode ?c data) = Inr data" using rt by simp
    assume h: "data = ?recs \<and> userData target_node TK_OUTPUT_CONNECTIONS_KEY = None \<and>
      (\<forall>c\<in>set (outputConnections source_node). outputNode c \<in> set session_paths)"
    from h have 1: "data = ?recs" by (rule conjunct1)
    from h have 2: "userData target_node TK_OUTPUT_CONNECTIONS_KEY = None"
      by (rule conjunct1 [OF conjunct2])
    from h have 3: "\<forall>c\<in>set (outputConnections source_node). outputNode c \<in> set session_paths"
      by (rule conjunct2 [OF conjunct2])
    show "\<exists>stored. save_outputs_to_user_data lib source_node target_node = Inr stored \<and>
               (\<forall>g. userData g TK_OUTPUT_CONNECTIONS_KEY =
                      userData stored TK_OUTPUT_CONNECTIONS_KEY \<longrightarrow>
                  restore_outputs_from_user_data lib session_paths g tk_node =
                    Inr (tk_node\<lparr>outputs := outputs tk_node @ outputs source_node\<rparr>))"
      by (rule second [OF 1 2 3])
  qed
qed


text \<open>
  C2. For every list of output-connection records that \<open>pickle\<close> and \<open>zlib\<close> give
  back, the decode function of the \<open>sgtk-01\<close> codec applied to the result of its encode
  function is the list itself. Under Python 3 the second half fails in
  \<open>_save_outputs_to_user_data\<close>: for a source node with an output connection, adding the
  encoder's \<open>bytes\<close> to the codec name raises \<open>TypeError\<close>, so nothing is stored on the
  target and \<open>_restore_outputs_from_user_data\<close> finds no connection to restore.
\<close>

theorem save_outputs_raises_type_error:
  assumes pickle: "loads lib (dumps lib data) = Inr data"
    and zlib: "decompress lib (compress lib (dumps lib data)) = Inr (dumps lib data)"
    and python3: "3 \<le> py_major lib"
    and connected: "outputConnections source_node \<noteq> []"
  shows "\<exists>c. codec_named lib TK_OUTPUT_CONNECTION_CODEC = Inr c \<and>
           decode c (encode c data) = Inr data \<and>
           save_outputs_to_user_data lib source_node target_node = Inl TypeError"
proof -
  let ?c = "\<lparr>encode = encode01 lib, decode = decode01 lib\<rparr>"
  have "decode01 lib (encode01 lib data) = Inr data"
    by (rule decode01_encode01 [OF pickle zlib])
  then have rt: "decode ?c (encode ?c data) = Inr data" by simp
  have "add_encoded lib prefix encoded = Inl TypeError" for prefix encoded
    using python3 by (simp add: add_encoded_def)
  then have "save_outputs_to_user_data lib source_node target_node = Inl TypeError"
    using connected by (simp add: save_outputs_to_user_data_def codec_named_current bnd_def)
  with rt codec_named_current [of lib] show ?thesis by blast
qed

theorem save_outputs_raises_type_error_witness:
  "py_major example_lib = 3 \<and>
   outputs surface_node = [(''/obj/geo1/merge1'', 0), (''/obj/geo1/null1'', 1)] \<and>
   decode01 example_lib (encode01 example_lib surface_records) = Inr surface_records \<and>
   userData bare_node TK_OUTPUT_CONNECTIONS_KEY = None \<and>
   save_outputs_to_user_data example_lib surface_node bare_node = Inl TypeError \<and>
   restore_outputs_from_user_data example_lib [''/obj/geo1/merge1'', ''/obj/geo1/null1'']
     bare_node bare_node = Inr bare_node"
proof -
  have h1: "loads example_lib (dumps example_lib surface_records) = Inr surface_records"
    by (simp add: example_lib_def surface_records_def bnd_def)
  have h2: "decompress example_lib (compress example_lib (dumps example_lib surface_records)) =
      Inr (dumps example_lib surface_records)"
    by (simp add: example_lib_def)
  have h3: "3 \<le> py_major example_lib" by (simp add: example_lib_def)
  have h4: "outputConnections surface_node \<noteq> []"
    by (simp add: outputConnections_def surface_node_def bare_node_def)
  from save_outputs_raises_type_error [OF h1 h2 h3 h4, of bare_node]
  obtain c where c: "codec_named example_lib TK_OUTPUT_CONNECTION_CODEC = Inr c"
    and rt: "decode c (encode c surface_records) = Inr surface_records"
    and s: "save_outputs_to_user_data example_lib surface_node bare_node = Inl TypeError"
    by blast
  from c have "c = \<lparr>encode = encode01 example_lib, decode = decode01 example_lib\<rparr>"
    by (simp add: codec_named_current)
  with rt have r: "decode01 example_lib (encode01 example_lib surface_records) = Inr surface_records"
    by simp
  have v: "py_major example_lib = 3" by (simp add: example_lib_def)
  have o: "outputs surface_node = [(''/obj/geo1/merge1'', 0), (''/obj/geo1/null1'', 1)]"
    by (simp add: surface_node_def bare_node_def)
  have f: "userData bare_node TK_OUTPUT_CONNECTIONS_KEY = None"
    by (simp add: userData_def bare_node_def)
  have n: "restore_outputs_from_user_data example_lib [''/obj/geo1/merge1'', ''/obj/geo1/null1'']
     bare_node bare_node = Inr bare_node"
    by (simp add: restore_outputs_from_user_data_def f)
  from v o r f s n show ?thesis by (intro conjI)
qed

subsection \<open>Converting nodes\<close>

lemma list_index_absent: "x \<notin> set xs \<Longrightarrow> list_index xs x = Inl ValueError"
  by (induction xs) (auto simp: bnd_def)

lemma set_parm_result:
  "set_parm ok nm v n = Inr n' \<Longrightarrow>
   n' = n\<lparr>parms := update_parm nm (\<lambda>q. q\<lparr>raw := v\<rparr>) (parms n)\<rparr>"
  by (auto simp: set_parm_def split: option.splits if_splits)

lemma copy_parm_result:
  "copy_parm ok sp t = Inr t' \<Longrightarrow> \<exists>ps. t' = t\<lparr>parms := ps\<rparr>"
proof -
  assume a: "copy_parm ok sp t = Inr t'"
  have self: "t = t\<lparr>parms := parms t\<rparr>" by simp
  have sp: "\<And>v n'. set_parm ok (parm_name sp) v t = Inr n' \<Longrightarrow> \<exists>ps. n' = t\<lparr>parms := ps\<rparr>"
    by (drule set_parm_result) blast
  show ?thesis
  proof (cases "parmTemplate sp = FolderSetParmTemplate")
    case True
    with a have "t' = t" by (simp add: copy_parm_def)
    with self show ?thesis by blast
  next
    case nf: False
    show ?thesis
    proof (cases "parm t (parm_name sp)")
      case None
      with a nf have "t' = t" by (simp add: copy_parm_def)
      with self show ?thesis by blast
    next
      case (Some q)
      show ?thesis
      proof (cases "keyframes sp = []")
        case False
        with a nf Some show ?thesis by (auto simp: copy_parm_def)
      next
        case True
        with a nf Some have
          "(\<exists>v. set_parm ok (parm_name sp) v t = Inr t')"
          by (auto simp: copy_parm_def bnd_def split: if_splits sum.splits py_error.splits pvalue.splits)
        with sp show ?thesis by blast
      qed
    qed
  qed
qed

lemma copy_parms_result:
  "copy_parms ok ps t = Inr t' \<Longrightarrow> \<exists>qs. t' = t\<lparr>parms := qs\<rparr>"
proof (induction ps arbitrary: t)
  case Nil
  then have "t' = t\<lparr>parms := parms t\<rparr>" by simp
  then show ?case by blast
next
  case (Cons p ps)
  from Cons.prems obtain u where u: "copy_parm ok p t = Inr u" and r: "copy_parms ok ps u = Inr t'"
    by (auto simp: bnd_def split: sum.splits)
  from copy_parm_result [OF u] obtain qs where q: "u = t\<lparr>parms := qs\<rparr>" by blast
  from Cons.IH [OF r] obtain rs where "t' = u\<lparr>parms := rs\<rparr>" by blast
  with q have "t' = t\<lparr>parms := rs\<rparr>" by simp
  then show ?case by blast
qed

lemma copy_parm_values_result:
  "copy_parm_values ok src t ex = Inr t' \<Longrightarrow> \<exists>qs. t' = t\<lparr>parms := qs\<rparr>"
  by (simp add: copy_parm_values_def copy_parms_result)

lemma copy_inputs_result:
  "copy_inputs src t = Inr t' \<Longrightarrow> \<exists>i. t' = t\<lparr>inputs := i\<rparr>"
  by (auto simp: copy_inputs_def Let_def set_inputs_inputs_only split: if_splits)

lemma reconnect_result:
  "reconnect paths cs t = Inr t' \<Longrightarrow> \<exists>os. t' = t\<lparr>outputs := os\<rparr>"
proof (induction cs arbitrary: t)
  case Nil
  then have "t' = t\<lparr>outputs := outputs t\<rparr>" by simp
  then show ?case by blast
next
  case (Cons c cs)
  from Cons.prems have
    r: "reconnect paths cs (t\<lparr>outputs := outputs t @ [(od_node c, od_input c)]\<rparr>) = Inr t'"
    by (simp split: if_splits)
  from Cons.IH [OF r] obtain os where
    "t' = t\<lparr>outputs := outputs t @ [(od_node c, od_input c)]\<rparr>\<lparr>outputs := os\<rparr>" by blast
  then have "t' = t\<lparr>outputs := os\<rparr>" by simp
  then show ?case by blast
qed

lemma restore_result:
  "restore_outputs_from_user_data lib paths src t = Inr t' \<Longrightarrow> \<exists>os. t' = t\<lparr>outputs := os\<rparr>"
proof -
  assume a: "restore_outputs_from_user_data lib paths src t = Inr t'"
  have self: "t = t\<lparr>outputs := outputs t\<rparr>" by simp
  from a have "t' = t \<or> (\<exists>cs. reconnect paths cs t = Inr t')"
    by (auto simp: restore_outputs_from_user_data_def Let_def bnd_def
        split: option.splits if_splits sum.splits)
  with self reconnect_result show ?thesis by metis
qed


lemma move_outputs_result:
  "snd (move_outputs src t) = t\<lparr>outputs := outputs t @ outputs src\<rparr>"
  by (simp add: move_outputs_def)

lemma copy_to_tk_node_result:
  assumes "copy_to_tk_node h paths g t = Inr tk"
  shows "\<exists>c. copy_parm_values (set_ok h) g t [NODE_OUTPUT_PATH_PARM] = Inr c \<and>
           parms tk = parms c \<and> type_name tk = type_name t \<and> category tk = category t \<and>
           parent_path tk = parent_path t \<and> node_name tk = node_name g \<and>
           color tk = color g \<and> position tk = position g"
proof -
  from assms obtain c w k where
    c: "copy_parm_values (set_ok h) g t [NODE_OUTPUT_PATH_PARM] = Inr c"
    and w: "copy_inputs g c = Inr w"
    and k: "(if type_name g = HOU_SOP_GEOMETRY_TYPE
          then restore_outputs_from_user_data (libs h) paths g w
          else if type_name g = HOU_ROP_GEOMETRY_TYPE
          then Inr (snd (move_outputs g w))
          else Inr w) = Inr k"
    and tk: "tk = k\<lparr>color := color g, node_name := node_name g, position := position g\<rparr>"
    unfolding copy_to_tk_node_def bnd_def by (auto split: sum.splits)
  from copy_parm_values_result [OF c] obtain qs where 1: "c = t\<lparr>parms := qs\<rparr>" by blast
  from copy_inputs_result [OF w] obtain i where 2: "w = c\<lparr>inputs := i\<rparr>" by blast
  have "\<exists>os. k = w\<lparr>outputs := os\<rparr>"
  proof (cases "type_name g = HOU_SOP_GEOMETRY_TYPE")
    case True
    with k have "restore_outputs_from_user_data (libs h) paths g w = Inr k" by simp
    then show ?thesis by (rule restore_result)
  next
    case False
    with k have "k = snd (move_outputs g w) \<or> k = w" by (auto split: if_splits)
    moreover have "w = w\<lparr>outputs := outputs w\<rparr>" by simp
    ultimately show ?thesis using move_outputs_result by metis
  qed
  then obtain os where 3: "k = w\<lparr>outputs := os\<rparr>" by blast
  from 1 2 3 tk have "parms tk = parms c \<and> type_name tk = type_name t \<and> category tk = category t \<and>
           parent_path tk = parent_path t \<and> node_name tk = node_name g \<and>
           color tk = color g \<and> position tk = position g"
    by simp
  with c show ?thesis by blast
qed

lemma select_output_profile_stale:
  assumes "parm tk TK_OUTPUT_PROFILE_PARM = Some p" and "nm \<notin> set (menuLabels p)"
  shows "select_output_profile h nm tk =
     Inr (tk, [(''warning'', ''No output profile found named: '' @ nm)])"
  by (simp add: select_output_profile_def the_parm_def assms(1) bnd_def
      list_index_absent [OF assms(2)])

text \<open>
  C6, as the code has it. When the profile name stored on a regular node is not among
  the labels of the profile menu of the node created for it, the \<open>ValueError\<close> of
  \<open>index\<close> is caught and a warning is logged, and the loop goes on with the
  statements after the \<open>try\<close> block: the values, the inputs and the outputs are copied
  to the new node, whose profile selection stays as created, the original node is
  destroyed and the new Toolkit node takes its name. The node is converted whenever these
  copies raise nothing.
\<close>

theorem stale_profile_warns_and_converts:
  assumes stored: "userData geometry_node TK_OUTPUT_PROFILE_NAME_KEY = Some nm"
    and named: "nm \<noteq> []"
    and created: "tk = createNode h (parent_path geometry_node) TK_GEOMETRY_NODE_TYPE"
    and menu: "parm tk TK_OUTPUT_PROFILE_PARM = Some p"
    and stale: "nm \<notin> set (menuLabels p)"
  shows "select_output_profile h nm tk =
           Inr (tk, [(''warning'', ''No output profile found named: '' @ nm)]) \<and>
         convert_back_nodes h (geometry_node # rest) s =
           bnd (copy_to_tk_node h (map path (session_nodes s) @ [path tk]) geometry_node tk)
             (\<lambda>converted.
                convert_back_nodes h rest
                  (s\<lparr>session_nodes :=
                       filter (\<lambda>n. path n \<noteq> path geometry_node) (session_nodes s) @ [converted],
                     messages := messages s @
                       [(''warning'', ''No output profile found named: '' @ nm),
                        (''debug'', ''Converted: Geometry node '' @
                           quoted (node_name geometry_node) @ '' to TK Geometry node.'')]\<rparr>)) \<and>
         (\<forall>converted.
            copy_to_tk_node h (map path (session_nodes s) @ [path tk]) geometry_node tk =
              Inr converted \<longrightarrow>
            type_name converted = type_name tk \<and>
            node_name converted = node_name geometry_node \<and>
            convert_back_nodes h [geometry_node] s =
              Inr (s\<lparr>session_nodes :=
                       filter (\<lambda>n. path n \<noteq> path geometry_node) (session_nodes s) @ [converted],
                     messages := messages s @
                       [(''warning'', ''No output profile found named: '' @ nm),
                        (''debug'', ''Converted: Geometry node '' @
                           quoted (node_name geometry_node) @ '' to TK Geometry node.'')]\<rparr>))"
proof -
  let ?w = "(''warning'', ''No output profile found named: '' @ nm)"
  have sel: "select_output_profile h nm tk = Inr (tk, [?w])"
    by (rule select_output_profile_stale [OF menu stale])
  have step: "convert_back_nodes h (geometry_node # rest) s =
           bnd (copy_to_tk_node h (map path (session_nodes s) @ [path tk]) geometry_node tk)
             (\<lambda>converted.
                convert_back_nodes h rest
                  (s\<lparr>session_nodes :=
                       filter (\<lambda>n. path n \<noteq> path geometry_node) (session_nodes s) @ [converted],
                     messages := messages s @
                       [?w,
                        (''debug'', ''Converted: Geometry node '' @
                           quoted (node_name geometry_node) @ '' to TK Geometry node.'')]\<rparr>))"
    for rest
    using named sel
    by (simp add: stored Let_def created [symmetric] bnd_def split: sum.splits)
  have one: "type_name converted = type_name tk \<and>
            node_name converted = node_name geometry_node \<and>
            convert_back_nodes h [geometry_node] s =
              Inr (s\<lparr>session_nodes :=
                       filter (\<lambda>n. path n \<noteq> path geometry_node) (session_nodes s) @ [converted],
                     messages := messages s @
                       [?w,
                        (''debug'', ''Converted: Geometry node '' @
                           quoted (node_name geometry_node) @ '' to TK Geometry node.'')]\<rparr>)"
    if c: "copy_to_tk_node h (map path (session_nodes s) @ [path tk]) geometry_node tk =
              Inr converted" for converted
  proof -
    from copy_to_tk_node_result [OF c] have
      "type_name converted = type_name tk" "node_name converted = node_name geometry_node"
      by blast+
    moreover have "convert_back_nodes h [geometry_node] s =
              Inr (s\<lparr>session_nodes :=
                       filter (\<lambda>n. path n \<noteq> path geometry_node) (session_nodes s) @ [converted],
                     messages := messages s @
                       [?w,
                        (''debug'', ''Converted: Geometry node '' @
                           quoted (node_name geometry_node) @ '' to TK Geometry node.'')]\<rparr>)"
      unfolding step [of "[]"] c by (simp add: bnd_def)
    ultimately show ?thesis by simp
  qed
  from sel step [of rest] one show ?thesis by blast
qed

theorem stale_profile_warns_and_converts_witness:
  "userData stale_node TK_OUTPUT_PROFILE_NAME_KEY = Some ''Old Profile'' \<and>
   parm (createNode example_houdini (parent_path stale_node) TK_GEOMETRY_NODE_TYPE)
     TK_OUTPUT_PROFILE_PARM = Some (menu_parm ''output_profile'' 0 [''Default'', ''Alembic'']) \<and>
   ''Old Profile'' \<notin> set [''Default'', ''Alembic''] \<and>
   select_output_profile example_houdini ''Old Profile''
       (example_createNode ''/out'' ''sgtk_geometry'') =
     Inr (example_createNode ''/out'' ''sgtk_geometry'',
          [(''warning'', ''No output profile found named: Old Profile'')]) \<and>
   map_sum id (\<lambda>s. (map type_name (session_nodes s), map node_name (session_nodes s),
                    map fst (messages s)))
     (convert_back_nodes example_houdini [stale_node] stale_session) =
     Inr ([''sgtk_geometry''], [''cache_main''], [''warning'', ''debug''])"
proof -
  let ?tk = "example_createNode ''/out'' ''sgtk_geometry''"
  let ?p = "menu_parm ''output_profile'' 0 [''Default'', ''Alembic'']"
  have h1: "userData stale_node TK_OUTPUT_PROFILE_NAME_KEY = Some ''Old Profile''"
    by code_simp
  have h2: "''Old Profile'' \<noteq> []" by simp
  have h3: "?tk = createNode example_houdini (parent_path stale_node) TK_GEOMETRY_NODE_TYPE"
    by (simp add: example_houdini_def stale_node_def example_createNode_def
        TK_GEOMETRY_NODE_TYPE_def)
  have h4: "parm ?tk TK_OUTPUT_PROFILE_PARM = Some ?p" by code_simp
  have h5: "''Old Profile'' \<notin> set (menuLabels ?p)" by (simp add: menu_parm_def)
  have c: "\<exists>converted. copy_to_tk_node example_houdini
      (map path (session_nodes stale_session) @ [path ?tk]) stale_node ?tk = Inr converted"
  proof -
    have "case copy_to_tk_node example_houdini
      (map path (session_nodes stale_session) @ [path ?tk]) stale_node ?tk of
        Inl e \<Rightarrow> False | Inr n \<Rightarrow> True"
      by code_simp
    then show ?thesis by (simp split: sum.splits)
  qed
  then obtain converted where c: "copy_to_tk_node example_houdini
      (map path (session_nodes stale_session) @ [path ?tk]) stale_node ?tk = Inr converted"
    by blast
  from stale_profile_warns_and_converts [OF h1 h2 h3 h4 h5, of "[]" stale_session] c
  have sel: "select_output_profile example_houdini ''Old Profile'' ?tk =
           Inr (?tk, [(''warning'', ''No output profile found named: '' @ ''Old Profile'')])"
    and t: "type_name converted = type_name ?tk"
    and n: "node_name converted = node_name stale_node"
    and r: "convert_back_nodes example_houdini [stale_node] stale_session =
              Inr (stale_session\<lparr>session_nodes :=
                       filter (\<lambda>n. path n \<noteq> path stale_node) (session_nodes stale_session) @
                         [converted],
                     messages := messages stale_session @
                       [(''warning'', ''No output profile found named: '' @ ''Old Profile''),
                        (''debug'', ''Converted: Geometry node '' @
                           quoted (node_name stale_node) @ '' to TK Geometry node.'')]\<rparr>)"
    by blast+
  have f: "filter (\<lambda>n. path n \<noteq> path stale_node) (session_nodes stale_session) = []"
    by (simp add: stale_session_def)
  have m: "messages stale_session = []" by (simp add: stale_session_def)
  have tn: "type_name ?tk = ''sgtk_geometry''" by (simp add: example_createNode_def)
  have nn: "node_name stale_node = ''cache_main''" by (simp add: stale_node_def)
  have last: "map_sum id (\<lambda>s. (map type_name (session_nodes s), map node_name (session_nodes s),
                    map fst (messages s)))
     (convert_back_nodes example_houdini [stale_node] stale_session) =
     Inr ([''sgtk_geometry''], [''cache_main''], [''warning'', ''debug''])"
    unfolding r f m by (simp add: t n tn nn)
  have h4': "parm (createNode example_houdini (parent_path stale_node) TK_GEOMETRY_NODE_TYPE)
     TK_OUTPUT_PROFILE_PARM = Some ?p"
    using h4 h3 by simp
  have h5': "''Old Profile'' \<notin> set [''Default'', ''Alembic'']" by simp
  from sel have sel': "select_output_profile example_houdini ''Old Profile'' ?tk =
     Inr (?tk, [(''warning'', ''No output profile found named: Old Profile'')])"
    by simp
  from h1 h4' h5' sel' last show ?thesis by (intro conjI)
qed

text \<open>
  C6 as stated fails on a session with one regular node whose stored profile name is
  \<open>Old Profile\<close>: the warning is logged, and the session ends with a Toolkit node of
  the same name in its place.
\<close>

theorem stale_profile_counterexample:
  "userData stale_node TK_OUTPUT_PROFILE_NAME_KEY = Some ''Old Profile'' \<and>
   map type_name (session_nodes stale_session) = [''geometry''] \<and>
   map_option menuLabels
     (parm (createNode example_houdini ''/out'' TK_GEOMETRY_NODE_TYPE) TK_OUTPUT_PROFILE_PARM) =
     Some [''Default'', ''Alembic''] \<and>
   map_sum id (\<lambda>s. (map type_name (session_nodes s), map node_name (session_nodes s),
                    messages s))
     (convert_back_to_tk_geometry_nodes example_houdini stale_session) =
     Inr ([''sgtk_geometry''], [''cache_main''],
          [(''warning'', ''No output profile found named: Old Profile''),
           (''debug'', ''Converted: Geometry node '' @ quoted ''cache_main'' @
              '' to TK Geometry node.'')])"
  by code_simp

subsection \<open>Parameters across the two conversions\<close>























end
